theory Spec2Isabelle
  imports Main "HOL-Library.Word"
begin

unbundle bit_operations_syntax

section \<open>The machine: addresses, bytes and the C library allocator\<close>

text \<open>
  The embedding is of the small-block cache and the aligned data allocator of NumPy's
  \<^verbatim>\<open>alloc.c\<close> on an LP64 target: \<^verbatim>\<open>void *\<close>, \<^verbatim>\<open>size_t\<close>, \<^verbatim>\<open>npy_intp\<close> and
  \<^verbatim>\<open>npy_uintp\<close> are 64-bit words, \<^verbatim>\<open>sizeof(void *)\<close> is 8, \<^verbatim>\<open>npy_uint\<close> is a 32-bit
  word, and the null pointer is the address 0.  Arithmetic on these types wraps.
\<close>

type_synonym addr = "64 word"
type_synonym byte = "8 word"

text \<open>
  One record per call into the C library allocator and one per invocation of the event
  hook, in the order in which the calls happen.  \<open>HookCall f old new size user_data\<close>
  is \<^verbatim>\<open>(*f)(old, new, size, user_data)\<close>.
\<close>

datatype sys_call =
    Malloc "64 word" addr
  | Calloc "64 word" "64 word" addr
  | Free addr
  | Realloc addr "64 word" addr

datatype hook_call = HookCall addr addr addr "64 word" addr

text \<open>\<^verbatim>\<open>typedef struct { npy_uintp available; void * ptrs[NCACHE]; } cache_bucket;\<close>\<close>

record cache_bucket =
  available :: "64 word"
  ptrs :: "addr list"

text \<open>
  The file's static variables (\<open>datacache\<close>, \<open>dimcache\<close>, the hook pair, the alignment
  pair), together with the environment they act on: the byte memory \<open>mem\<close>, the blocks
  \<open>live\<close> that the C library has handed out (base address to size), the addresses
  \<open>sys_next\<close> that the C library will answer its coming requests with (0 is a refusal,
  and an exhausted list refuses too), and the two logs.
\<close>

record state =
  datacache :: "cache_bucket list"
  dimcache :: "cache_bucket list"
  PyDataMem_eventhook :: addr
  PyDataMem_eventhook_user_data :: addr
  datamem_align :: "64 word"
  datamem_align_mask :: "64 word"
  mem :: "addr \<Rightarrow> byte"
  live :: "addr \<rightharpoonup> 64 word"
  sys_next :: "addr list"
  sys_calls :: "sys_call list"
  hook_calls :: "hook_call list"

definition NBUCKETS :: "32 word" where "NBUCKETS = 1024"
definition NBUCKETS_DIM :: "32 word" where "NBUCKETS_DIM = 16"
definition NCACHE :: "64 word" where "NCACHE = 7"
definition MIN_ALIGN :: "64 word" where "MIN_ALIGN = 16"

subsection \<open>Memory operations\<close>

text \<open>
  A region of \<open>n\<close> bytes at \<open>p\<close> is the set of addresses \<open>x\<close> with \<open>x - p < n\<close>
  (unsigned, modulo \<open>2 ^ 64\<close>).  \<open>memset0\<close> is \<^verbatim>\<open>memset(p, 0, n)\<close>; \<open>memmove\<close> reads
  every source byte from the memory before the call, so that overlapping regions are
  handled as the C function does.
\<close>

definition memset0 :: "addr \<Rightarrow> 64 word \<Rightarrow> (addr \<Rightarrow> byte) \<Rightarrow> (addr \<Rightarrow> byte)" where
  "memset0 p n m = (\<lambda>x. if x - p < n then 0 else m x)"

definition memmove :: "addr \<Rightarrow> addr \<Rightarrow> 64 word \<Rightarrow> (addr \<Rightarrow> byte) \<Rightarrow> (addr \<Rightarrow> byte)" where
  "memmove dst src n m = (\<lambda>x. if x - dst < n then m (src + (x - dst)) else m x)"

text \<open>A pointer is stored in eight bytes, least significant byte first.\<close>

definition store_ptr :: "addr \<Rightarrow> addr \<Rightarrow> (addr \<Rightarrow> byte) \<Rightarrow> (addr \<Rightarrow> byte)" where
  "store_ptr p v m = (\<lambda>x. if x - p < 8 then ucast (drop_bit (8 * unat (x - p)) v) else m x)"

definition load_ptr :: "(addr \<Rightarrow> byte) \<Rightarrow> addr \<Rightarrow> addr" where
  "load_ptr m p =
     ucast (m p) OR push_bit 8 (ucast (m (p + 1))) OR push_bit 16 (ucast (m (p + 2))) OR
     push_bit 24 (ucast (m (p + 3))) OR push_bit 32 (ucast (m (p + 4))) OR
     push_bit 40 (ucast (m (p + 5))) OR push_bit 48 (ucast (m (p + 6))) OR
     push_bit 56 (ucast (m (p + 7)))"

subsection \<open>malloc, calloc, free, realloc\<close>

text \<open>
  The C library chooses the addresses; the model takes its choice from \<open>sys_next\<close>.
  \<open>calloc\<close> refuses a product that does not fit and zero-fills the block.  \<open>free\<close> of
  the null pointer does nothing.  \<open>realloc\<close> either refuses and leaves the block alone,
  or resizes in place, or moves the block, copying the smaller of the two sizes.
\<close>

definition sys_malloc :: "64 word \<Rightarrow> state \<Rightarrow> addr \<times> state" where
  "sys_malloc n st =
     (case sys_next st of
        [] \<Rightarrow> (0, st\<lparr>sys_calls := sys_calls st @ [Malloc n 0]\<rparr>)
      | r # rs \<Rightarrow>
          (r, st\<lparr>live := (if r = 0 then live st else (live st)(r \<mapsto> n)),
                 sys_next := rs,
                 sys_calls := sys_calls st @ [Malloc n r]\<rparr>))"

definition sys_calloc :: "64 word \<Rightarrow> 64 word \<Rightarrow> state \<Rightarrow> addr \<times> state" where
  "sys_calloc nmemb sz st =
     (case sys_next st of
        [] \<Rightarrow> (0, st\<lparr>sys_calls := sys_calls st @ [Calloc nmemb sz 0]\<rparr>)
      | r # rs \<Rightarrow>
          if r = 0 \<or> 2 ^ 64 \<le> unat nmemb * unat sz
          then (0, st\<lparr>sys_next := rs, sys_calls := sys_calls st @ [Calloc nmemb sz 0]\<rparr>)
          else (r, st\<lparr>mem := memset0 r (nmemb * sz) (mem st),
                      live := (live st)(r \<mapsto> nmemb * sz),
                      sys_next := rs,
                      sys_calls := sys_calls st @ [Calloc nmemb sz r]\<rparr>))"

definition sys_free :: "addr \<Rightarrow> state \<Rightarrow> state" where
  "sys_free p st =
     (if p = 0 then st
      else st\<lparr>live := (live st)(p := None), sys_calls := sys_calls st @ [Free p]\<rparr>)"

definition sys_realloc :: "addr \<Rightarrow> 64 word \<Rightarrow> state \<Rightarrow> addr \<times> state" where
  "sys_realloc p n st =
     (case sys_next st of
        [] \<Rightarrow> (0, st\<lparr>sys_calls := sys_calls st @ [Realloc p n 0]\<rparr>)
      | r # rs \<Rightarrow>
          if r = 0
          then (0, st\<lparr>sys_next := rs, sys_calls := sys_calls st @ [Realloc p n 0]\<rparr>)
          else if r = p
          then (r, st\<lparr>live := (live st)(p \<mapsto> n),
                      sys_next := rs,
                      sys_calls := sys_calls st @ [Realloc p n r]\<rparr>)
          else (r, st\<lparr>mem := memmove r p (min n (case live st p of None \<Rightarrow> 0 | Some k \<Rightarrow> k))
                                (mem st),
                      live := ((live st)(p := None))(r \<mapsto> n),
                      sys_next := rs,
                      sys_calls := sys_calls st @ [Realloc p n r]\<rparr>))"

text \<open>
  Modelled from the spec: the macros \<^verbatim>\<open>PyArray_malloc\<close> and \<^verbatim>\<open>PyArray_free\<close> come from
  a header that is not among the sources at hand.  The spec names them the dimension
  cache's underlying allocator and deallocator and says that this cache is not
  alignment-sensitive; the source says that the dimension cache "uses a different
  allocator".  They are the C library's \<^verbatim>\<open>malloc\<close> and \<^verbatim>\<open>free\<close>.
\<close>

definition PyArray_malloc :: "64 word \<Rightarrow> state \<Rightarrow> addr \<times> state" where
  "PyArray_malloc n st = sys_malloc n st"

definition PyArray_free :: "addr \<Rightarrow> state \<Rightarrow> state" where
  "PyArray_free p st = sys_free p st"

text \<open>
  Modelled from the spec: \<^verbatim>\<open>npy_mul_with_overflow_intp\<close> comes from \<^verbatim>\<open>templ_common.h\<close>,
  which is not among the sources at hand.  The spec asks for a checked multiply that
  detects when \<open>count * elemSize\<close> overflows the platform's size representation.  The
  result is the flag and the (wrapped) product.
\<close>

definition npy_mul_with_overflow_intp :: "64 word \<Rightarrow> 64 word \<Rightarrow> bool \<times> 64 word" where
  "npy_mul_with_overflow_intp a b = (2 ^ 64 \<le> unat a * unat b, a * b)"

section \<open>The aligned data allocator\<close>

text \<open>
  The block \<^verbatim>\<open>if (_PyDataMem_eventhook != NULL) { ... (*_PyDataMem_eventhook)(old, new,
  size, _PyDataMem_eventhook_user_data); ... }\<close> that ends each of the four
  \<^verbatim>\<open>PyDataMem_*\<close> functions.  The hook is an opaque function pointer: its invocation is
  logged, and it is taken not to call back into the allocator.
\<close>

definition call_eventhook :: "addr \<Rightarrow> addr \<Rightarrow> 64 word \<Rightarrow> state \<Rightarrow> state" where
  "call_eventhook old new sz st =
     (if PyDataMem_eventhook st \<noteq> 0
      then st\<lparr>hook_calls := hook_calls st @
                 [HookCall (PyDataMem_eventhook st) old new sz
                    (PyDataMem_eventhook_user_data st)]\<rparr>
      else st)"

text \<open>
  \<^verbatim>\<open>PyDataMem_SetEventHook(newhook, user_data, old_data)\<close>: the previous hook is returned,
  and the previous user data too (the C function stores it through \<^verbatim>\<open>old_data\<close>).
\<close>

definition PyDataMem_SetEventHook :: "addr \<Rightarrow> addr \<Rightarrow> state \<Rightarrow> (addr \<times> addr) \<times> state" where
  "PyDataMem_SetEventHook newhook user_data st =
     ((PyDataMem_eventhook st, PyDataMem_eventhook_user_data st),
      st\<lparr>PyDataMem_eventhook := newhook, PyDataMem_eventhook_user_data := user_data\<rparr>)"

definition get_aligned_size :: "64 word \<Rightarrow> state \<Rightarrow> 64 word" where
  "get_aligned_size sz st = sz + 8 + datamem_align_mask st"

definition align_pointer :: "addr \<Rightarrow> state \<Rightarrow> addr \<times> state" where
  "align_pointer ptr st =
     (let aligned_ptr = (ptr + 8 + datamem_align_mask st) AND NOT (datamem_align_mask st)
      in (aligned_ptr, st\<lparr>mem := store_ptr (aligned_ptr - 8) ptr (mem st)\<rparr>))"

definition get_original_pointer :: "addr \<Rightarrow> state \<Rightarrow> addr" where
  "get_original_pointer aligned_ptr st = load_ptr (mem st) (aligned_ptr - 8)"

definition npy_datamem_get_align :: "state \<Rightarrow> 64 word" where
  "npy_datamem_get_align st = datamem_align st"

definition PyDataMem_NEW :: "64 word \<Rightarrow> state \<Rightarrow> addr \<times> state" where
  "PyDataMem_NEW sz st =
     (let (result, st1) = sys_malloc (get_aligned_size sz st) st;
          (result, st2) = (if result \<noteq> 0 then align_pointer result st1 else (result, st1))
      in (result, call_eventhook 0 result sz st2))"

definition PyDataMem_NEW_ZEROED :: "64 word \<Rightarrow> 64 word \<Rightarrow> state \<Rightarrow> addr \<times> state" where
  "PyDataMem_NEW_ZEROED nelems elsize st =
     (let (overflow, sz) = npy_mul_with_overflow_intp nelems elsize;
          (result, st2) =
            (if overflow then (0, st)
             else let (result, st1) = sys_calloc (get_aligned_size sz st) 1 st
                  in if result \<noteq> 0 then align_pointer result st1 else (result, st1))
      in (result, call_eventhook 0 result (nelems * elsize) st2))"

definition PyDataMem_FREE :: "addr \<Rightarrow> state \<Rightarrow> state" where
  "PyDataMem_FREE ptr st =
     call_eventhook ptr 0 0
       (if ptr \<noteq> 0 then sys_free (get_original_pointer ptr st) st else st)"

definition PyDataMem_RENEW :: "addr \<Rightarrow> 64 word \<Rightarrow> state \<Rightarrow> addr \<times> state" where
  "PyDataMem_RENEW ptr sz st =
     (let original_ptr = get_original_pointer ptr st;
          (base_result, st1) = sys_realloc original_ptr (get_aligned_size sz st) st;
          (result, st2) =
            (if base_result = 0 then (0, st1)
             else if base_result = original_ptr then (ptr, st1)
             else let offset = ptr - original_ptr;
                      (result, st3) = align_pointer base_result st1;
                      new_offset = result - base_result
                  in (result,
                      if new_offset \<noteq> offset
                      then st3\<lparr>mem := memmove result (base_result + offset) sz (mem st3)\<rparr>
                      else st3))
      in (result, call_eventhook ptr result sz st2))"

section \<open>The small-block cache\<close>

text \<open>
  The parameter \<^verbatim>\<open>cache_bucket * cache\<close> of the three static base functions is one of
  the two static tables (the source asserts it); it is passed as a tag.  Their names
  lose the leading underscore, which an Isabelle name cannot start with, for \<open>u_\<close>.
\<close>

datatype cache_id = DataCache | DimCache

fun get_cache :: "cache_id \<Rightarrow> state \<Rightarrow> cache_bucket list" where
  "get_cache DataCache st = datacache st"
| "get_cache DimCache st = dimcache st"

fun set_cache :: "cache_id \<Rightarrow> cache_bucket list \<Rightarrow> state \<Rightarrow> state" where
  "set_cache DataCache c st = st\<lparr>datacache := c\<rparr>"
| "set_cache DimCache c st = st\<lparr>dimcache := c\<rparr>"

definition u_npy_alloc_cache ::
  "64 word \<Rightarrow> 64 word \<Rightarrow> 32 word \<Rightarrow> cache_id \<Rightarrow> (64 word \<Rightarrow> state \<Rightarrow> addr \<times> state)
     \<Rightarrow> state \<Rightarrow> addr \<times> state" where
  "u_npy_alloc_cache nelem esz msz cache alloc st =
     (if nelem < ucast msz \<and> 0 < available (get_cache cache st ! unat nelem)
      then let b = get_cache cache st ! unat nelem;
               a = available b - 1
           in (ptrs b ! unat a,
               set_cache cache ((get_cache cache st)[unat nelem := b\<lparr>available := a\<rparr>]) st)
      else alloc (nelem * esz) st)"

definition u_npy_free_cache ::
  "addr \<Rightarrow> 64 word \<Rightarrow> 32 word \<Rightarrow> cache_id \<Rightarrow> (addr \<Rightarrow> state \<Rightarrow> state)
     \<Rightarrow> state \<Rightarrow> state" where
  "u_npy_free_cache p nelem msz cache dealloc st =
     (if p \<noteq> 0 \<and> nelem < ucast msz \<and> available (get_cache cache st ! unat nelem) < NCACHE
      then let b = get_cache cache st ! unat nelem
           in set_cache cache
                ((get_cache cache st)
                   [unat nelem := b\<lparr>available := available b + 1,
                                     ptrs := (ptrs b)[unat (available b) := p]\<rparr>]) st
      else dealloc p st)"

text \<open>The two nested \<^verbatim>\<open>for\<close> loops of \<^verbatim>\<open>_npy_clear_cache\<close>, inner loop first.\<close>

definition clear_bucket :: "cache_id \<Rightarrow> (addr \<Rightarrow> state \<Rightarrow> state) \<Rightarrow> nat \<Rightarrow> state \<Rightarrow> state" where
  "clear_bucket cache dealloc nelem st =
     (let st1 = fold (\<lambda>i s. dealloc (ptrs (get_cache cache s ! nelem) ! i) s)
                  [0 ..< unat (available (get_cache cache st ! nelem))] st
      in set_cache cache
           ((get_cache cache st1)[nelem := (get_cache cache st1 ! nelem)\<lparr>available := 0\<rparr>]) st1)"

definition u_npy_clear_cache ::
  "32 word \<Rightarrow> cache_id \<Rightarrow> (addr \<Rightarrow> state \<Rightarrow> state) \<Rightarrow> state \<Rightarrow> state" where
  "u_npy_clear_cache msz cache dealloc st =
     fold (clear_bucket cache dealloc) [0 ..< unat msz] st"

definition npy_alloc_cache :: "64 word \<Rightarrow> state \<Rightarrow> addr \<times> state" where
  "npy_alloc_cache sz st = u_npy_alloc_cache sz 1 NBUCKETS DataCache PyDataMem_NEW st"

definition npy_alloc_cache_zero :: "64 word \<Rightarrow> state \<Rightarrow> addr \<times> state" where
  "npy_alloc_cache_zero sz st =
     (if sz < ucast NBUCKETS
      then let (p, st1) = u_npy_alloc_cache sz 1 NBUCKETS DataCache PyDataMem_NEW st
           in (p, if p \<noteq> 0 then st1\<lparr>mem := memset0 p sz (mem st1)\<rparr> else st1)
      else PyDataMem_NEW_ZEROED sz 1 st)"

definition npy_free_cache :: "addr \<Rightarrow> 64 word \<Rightarrow> state \<Rightarrow> state" where
  "npy_free_cache p sz st = u_npy_free_cache p sz NBUCKETS DataCache PyDataMem_FREE st"

definition npy_alloc_cache_dim :: "64 word \<Rightarrow> state \<Rightarrow> addr \<times> state" where
  "npy_alloc_cache_dim sz st =
     u_npy_alloc_cache (if sz < 2 then 2 else sz) 8 NBUCKETS_DIM DimCache PyArray_malloc st"

definition npy_free_cache_dim :: "addr \<Rightarrow> 64 word \<Rightarrow> state \<Rightarrow> state" where
  "npy_free_cache_dim p sz st =
     u_npy_free_cache p (if sz < 2 then 2 else sz) NBUCKETS_DIM DimCache PyArray_free st"

text \<open>The result is the C \<^verbatim>\<open>int\<close>: 0 on success, -1 on a rejected value.\<close>

definition npy_datamem_set_align :: "64 word \<Rightarrow> state \<Rightarrow> int \<times> state" where
  "npy_datamem_set_align align st =
     (let align_mask = align - 1
      in if align < MIN_ALIGN then (- 1, st)
         else if (align XOR align_mask) \<noteq> (align OR align_mask) then (- 1, st)
         else let st1 = (if datamem_align st < align
                         then u_npy_clear_cache NBUCKETS DataCache PyDataMem_FREE st
                         else st)
              in (0, st1\<lparr>datamem_align := align, datamem_align_mask := align_mask\<rparr>))"

section \<open>States\<close>

text \<open>
  The state at program start: the static tables are zero-initialised, no hook is
  registered, the alignment is \<open>MIN_ALIGN\<close>.  The memory contents and the C library's
  coming answers are the environment's.
\<close>

definition empty_bucket :: cache_bucket where
  "empty_bucket = \<lparr>available = 0, ptrs = replicate 7 0\<rparr>"

definition init_state :: "(addr \<Rightarrow> byte) \<Rightarrow> addr list \<Rightarrow> state" where
  "init_state m answers =
     \<lparr>datacache = replicate 1024 empty_bucket,
      dimcache = replicate 16 empty_bucket,
      PyDataMem_eventhook = 0,
      PyDataMem_eventhook_user_data = 0,
      datamem_align = MIN_ALIGN,
      datamem_align_mask = MIN_ALIGN - 1,
      mem = m,
      live = Map.empty,
      sys_next = answers,
      sys_calls = [],
      hook_calls = []\<rparr>"

section \<open>Notions the properties are stated with\<close>

text \<open>A power of two that a 64-bit \<^verbatim>\<open>size_t\<close> can hold.\<close>

definition is_pow2 :: "64 word \<Rightarrow> bool" where
  "is_pow2 a = (\<exists>k \<in> {0 ..< 64}. a = 2 ^ k)"

text \<open>The address \<open>p\<close> is a multiple of \<open>a\<close>.\<close>

definition aligned_to :: "64 word \<Rightarrow> addr \<Rightarrow> bool" where
  "aligned_to a p = (unat p mod unat a = 0)"

text \<open>
  The data model of the tables: each has its declared number of buckets, each bucket
  its \<open>NCACHE\<close> slots and at most \<open>NCACHE\<close> entries.
\<close>

definition bucket_ok :: "cache_bucket \<Rightarrow> bool" where
  "bucket_ok b = (available b \<le> NCACHE \<and> length (ptrs b) = 7)"

definition cache_ok :: "state \<Rightarrow> bool" where
  "cache_ok st =
     (length (datacache st) = 1024 \<and> length (dimcache st) = 16 \<and>
      list_all bucket_ok (datacache st) \<and> list_all bucket_ok (dimcache st))"

text \<open>The alignment pair as \<^verbatim>\<open>npy_datamem_set_align\<close> leaves it.\<close>

definition align_ok :: "state \<Rightarrow> bool" where
  "align_ok st =
     (is_pow2 (datamem_align st) \<and> 16 \<le> datamem_align st \<and>
      datamem_align_mask st = datamem_align st - 1)"

text \<open>
  The calls a client can make, and a run of them.  \<open>Clear_cache\<close> is the purge of one
  table with the deallocator that the table is released with.
\<close>

datatype op =
    Alloc_data "64 word"
  | Alloc_data_zero "64 word"
  | Free_data addr "64 word"
  | Alloc_dims "64 word"
  | Free_dims addr "64 word"
  | Clear_cache cache_id
  | Set_align "64 word"
  | Set_hook addr addr
  | Data_new "64 word"
  | Data_new_zeroed "64 word" "64 word"
  | Data_free addr
  | Data_renew addr "64 word"

fun step :: "op \<Rightarrow> state \<Rightarrow> state" where
  "step (Alloc_data n) st = snd (npy_alloc_cache n st)"
| "step (Alloc_data_zero n) st = snd (npy_alloc_cache_zero n st)"
| "step (Free_data p n) st = npy_free_cache p n st"
| "step (Alloc_dims n) st = snd (npy_alloc_cache_dim n st)"
| "step (Free_dims p n) st = npy_free_cache_dim p n st"
| "step (Clear_cache DataCache) st = u_npy_clear_cache NBUCKETS DataCache PyDataMem_FREE st"
| "step (Clear_cache DimCache) st = u_npy_clear_cache NBUCKETS_DIM DimCache PyArray_free st"
| "step (Set_align a) st = snd (npy_datamem_set_align a st)"
| "step (Set_hook f d) st = snd (PyDataMem_SetEventHook f d st)"
| "step (Data_new n) st = snd (PyDataMem_NEW n st)"
| "step (Data_new_zeroed n e) st = snd (PyDataMem_NEW_ZEROED n e st)"
| "step (Data_free p) st = PyDataMem_FREE p st"
| "step (Data_renew p n) st = snd (PyDataMem_RENEW p n st)"

definition run :: "op list \<Rightarrow> state \<Rightarrow> state" where
  "run ops st = fold step ops st"

text \<open>The blocks that a table holds, bucket by bucket, each bucket from slot 0 up.\<close>

definition cached_blocks :: "cache_bucket list \<Rightarrow> addr list" where
  "cached_blocks c = concat (map (\<lambda>b. map ((!) (ptrs b)) [0 ..< unat (available b)]) c)"

section \<open>Sample states\<close>

text \<open>
  A hook is registered at program start and the C library will answer its next request
  with the address \<open>0x1000\<close>; then 500 bytes are allocated (a miss); then they are
  released (into the cache).
\<close>

definition hooked_state :: state where
  "hooked_state = snd (PyDataMem_SetEventHook 0x4000 0x77 (init_state (\<lambda>_. 0) [0x1000]))"

definition missed_state :: state where
  "missed_state = snd (npy_alloc_cache 500 hooked_state)"

definition cached_state :: state where
  "cached_state = npy_free_cache 0x1010 500 missed_state"

text \<open>A state whose dimension bucket 3 is full.\<close>

definition full_dim_state :: state where
  "full_dim_state =
     (init_state (\<lambda>_. 0) [])
       \<lparr>dimcache := (replicate 16 empty_bucket)
          [3 := \<lparr>available = 7, ptrs = [0x10, 0x20, 0x30, 0x40, 0x50, 0x60, 0x70]\<rparr>]\<rparr>"

text \<open>
  A hook is registered at program start and the C library will answer its next eight
  requests with \<open>0x1000\<close>, ..., \<open>0x8000\<close>; then eight blocks of 500 bytes are allocated
  (their addresses are \<open>0x1010\<close>, ..., \<open>0x8010\<close>), or else eight blocks of 3 words for
  dimensions (their addresses are the C library's).
\<close>

definition eight_hooked_state :: state where
  "eight_hooked_state =
     snd (PyDataMem_SetEventHook 0x4000 0x77
       (init_state (\<lambda>_. 0) [0x1000, 0x2000, 0x3000, 0x4000, 0x5000, 0x6000, 0x7000, 0x8000]))"

definition eight_data_state :: state where
  "eight_data_state =
     run [Alloc_data 500, Alloc_data 500, Alloc_data 500, Alloc_data 500,
          Alloc_data 500, Alloc_data 500, Alloc_data 500, Alloc_data 500] eight_hooked_state"

definition eight_dim_state :: state where
  "eight_dim_state =
     run [Alloc_dims 3, Alloc_dims 3, Alloc_dims 3, Alloc_dims 3,
          Alloc_dims 3, Alloc_dims 3, Alloc_dims 3, Alloc_dims 3] eight_hooked_state"

text \<open>
  A block is allocated under the alignment 16, the alignment is raised to 32, the block is
  released and its size is allocated again.  The components are: the first address, the
  result of \<^verbatim>\<open>npy_datamem_set_align\<close>, the alignment in force at the end, the second
  address.
\<close>

definition raise_scenario :: "addr \<times> int \<times> 64 word \<times> addr" where
  "raise_scenario =
     (let st0 = init_state (\<lambda>_. 0) [0x1000];
          (p, st1) = npy_alloc_cache 100 st0;
          (rc, st2) = npy_datamem_set_align 32 st1;
          st3 = npy_free_cache p 100 st2;
          (q, st4) = npy_alloc_cache 100 st3
      in (p, rc, npy_datamem_get_align st3, q))"

text \<open>
  Zeroed memory for \<open>2 ^ 64 - 8\<close> elements of size 1 is requested, in a memory whose
  bytes are all \<open>0xAA\<close>.  The components are: the flag of the checked multiply, the
  returned address, the calls of the C library, the first byte at the returned address.
\<close>

definition zeroed_wrap_scenario :: "bool \<times> addr \<times> sys_call list \<times> byte" where
  "zeroed_wrap_scenario =
     (let st0 = init_state (\<lambda>_. 0xAA) [0x1000];
          (p, st1) = PyDataMem_NEW_ZEROED 0xFFFFFFFFFFFFFFF8 1 st0
      in (fst (npy_mul_with_overflow_intp 0xFFFFFFFFFFFFFFF8 1), p, sys_calls st1, mem st1 p))"

text \<open>
  Under the alignment 32, a block of 16 bytes is allocated (the C library answers
  \<open>0x1010\<close>), its owner stores \<open>0x5A\<close> in its byte 8, and the block is resized to 16
  bytes (the C library moves it to \<open>0x2000\<close>).  The components are: the first address,
  its byte 8 before the resize, the second address, its byte 8 after the resize.
\<close>

definition renew_scenario :: "addr \<times> byte \<times> addr \<times> byte" where
  "renew_scenario =
     (let st0 = init_state (\<lambda>_. 0) [0x1010, 0x2000];
          (rc, st1) = npy_datamem_set_align 32 st0;
          (p, st2) = PyDataMem_NEW 16 st1;
          st3 = st2\<lparr>mem := (mem st2)(p + 8 := 0x5A)\<rparr>;
          (q, st4) = PyDataMem_RENEW p 16 st3
      in (p, mem st3 (p + 8), q, mem st4 (q + 8)))"

section \<open>Powers of two and the alignment check\<close>

lemma xor_eq_or_iff: "(x XOR y) = (x OR y) \<longleftrightarrow> x AND y = 0" for x y :: "64 word"
  by (auto simp: bit_eq_iff bit_simps)

lemma pow2_and_pred: "k < 64 \<Longrightarrow> (2 ^ k :: 64 word) AND (2 ^ k - 1) = 0"
proof -
  have "(2 ^ k :: 64 word) AND mask k = take_bit k (2 ^ k)"
    by (simp add: take_bit_eq_mask)
  also have "\<dots> = 0" by (rule bit_eqI) (auto simp: bit_simps)
  finally show ?thesis by (simp add: mask_eq_exp_minus_1)
qed

text \<open>Clearing the lowest set bit of a positive number leaves 0 only for a power of two.\<close>

lemma nat_and_pred_pow2:
  "0 < n \<Longrightarrow> n AND (n - 1) = 0 \<Longrightarrow> \<exists>k. n = 2 ^ k" for n :: nat
proof (induction n rule: less_induct)
  case (less n)
  show ?case
  proof (cases "odd n")
    case True
    then obtain m where m: "n = 2 * m + 1" by (auto elim: oddE)
    have "n AND (n - 1) = 2 * m"
      by (subst and_rec) (simp add: m)
    with less.prems have "m = 0" by simp
    then have "n = 2 ^ 0" by (simp add: m)
    then show ?thesis by blast
  next
    case False
    then obtain m where m: "n = 2 * m" by (auto elim: evenE)
    with less.prems have mpos: "0 < m" by simp
    have "(n - 1) div 2 = m - 1" using mpos by (simp add: m)
    then have "n AND (n - 1) = 2 * (m AND (m - 1))"
      by (subst and_rec) (simp add: m)
    with less.prems have "m AND (m - 1) = 0" by simp
    moreover have "m < n" using mpos by (simp add: m)
    ultimately obtain k where "m = 2 ^ k" using less.IH mpos by blast
    then have "n = 2 ^ Suc k" by (simp add: m)
    then show ?thesis by blast
  qed
qed

lemma word_and_pred_pow2:
  fixes a :: "64 word"
  assumes "a \<noteq> 0" "a AND (a - 1) = 0"
  shows "\<exists>k<64. a = 2 ^ k"
proof -
  have pos: "0 < unat a" using assms(1) by (simp add: unat_gt_0)
  have "unat (a AND (a - 1)) = unat a AND (unat a - 1)"
    using assms(1) by (simp add: unsigned_and_eq unat_minus_one)
  with assms(2) have "unat a AND (unat a - 1) = 0" by simp
  with pos obtain k where k: "unat a = 2 ^ k" using nat_and_pred_pow2 by blast
  have "unat a < 2 ^ 64" using unsigned_less [of a] by simp
  with k have lt: "(2::nat) ^ k < 2 ^ 64" by simp
  have "k < 64"
  proof (rule power_less_imp_less_exp)
    show "(1::nat) < 2" by simp
    show "(2::nat) ^ k < 2 ^ 64" by (rule lt)
  qed
  moreover have "a = 2 ^ k"
  proof -
    have "a = word_of_nat (unat a)" by simp
    also have "\<dots> = 2 ^ k" by (simp only: k) simp
    finally show ?thesis .
  qed
  ultimately show ?thesis by blast
qed

text \<open>The test \<^verbatim>\<open>(align ^ align_mask) != (align | align_mask)\<close> of the source.\<close>

lemma power_of_two_check:
  fixes a :: "64 word"
  assumes "a \<noteq> 0"
  shows "(a XOR (a - 1)) = (a OR (a - 1)) \<longleftrightarrow> is_pow2 a"
proof
  assume "(a XOR (a - 1)) = (a OR (a - 1))"
  then have "a AND (a - 1) = 0" by (simp add: xor_eq_or_iff)
  with assms obtain k where "k < 64" "a = 2 ^ k" using word_and_pred_pow2 by blast
  then show "is_pow2 a" by (auto simp: is_pow2_def)
next
  assume "is_pow2 a"
  then obtain k where "k < 64" "a = 2 ^ k" by (auto simp: is_pow2_def)
  then have "a AND (a - 1) = 0" by (simp add: pow2_and_pred)
  then show "(a XOR (a - 1)) = (a OR (a - 1))" by (simp add: xor_eq_or_iff)
qed

lemma not_pow2_24: "\<not> is_pow2 24"
  using power_of_two_check [of 24] by simp

lemma pow2_16: "is_pow2 16"
  unfolding is_pow2_def by (rule bexI [of _ 4]) simp_all

lemma pow2_32: "is_pow2 32"
  unfolding is_pow2_def by (rule bexI [of _ 5]) simp_all

text \<open>
  C7.  \<^verbatim>\<open>npy_datamem_set_align\<close> answers -1 to a value that is not a power of two or is
  below 16, and then changes nothing at all (so neither the stored alignment nor its
  mask); it answers 0 to a power of two from 16 on, and \<^verbatim>\<open>npy_datamem_get_align\<close>
  then reports that value, the mask being the value less one.
\<close>

theorem set_align_validation:
  "(\<not> is_pow2 a \<or> a < 16 \<longrightarrow> npy_datamem_set_align a st = (- 1, st)) \<and>
   (is_pow2 a \<and> 16 \<le> a \<longrightarrow>
      fst (npy_datamem_set_align a st) = 0 \<and>
      npy_datamem_get_align (snd (npy_datamem_set_align a st)) = a \<and>
      datamem_align_mask (snd (npy_datamem_set_align a st)) = a - 1)"
proof (cases "a < 16")
  case True
  then show ?thesis
    by (auto simp: npy_datamem_set_align_def MIN_ALIGN_def Let_def)
next
  case False
  then have "a \<noteq> 0" by auto
  then have chk: "(a XOR (a - 1)) = (a OR (a - 1)) \<longleftrightarrow> is_pow2 a"
    by (rule power_of_two_check)
  show ?thesis
    using False chk
    by (auto simp: npy_datamem_set_align_def npy_datamem_get_align_def MIN_ALIGN_def Let_def)
qed

theorem set_align_validation_witness:
  "npy_datamem_set_align 24 (init_state (\<lambda>_. 0) []) = (- 1, init_state (\<lambda>_. 0) []) \<and>
   npy_datamem_set_align 3 (init_state (\<lambda>_. 0) []) = (- 1, init_state (\<lambda>_. 0) []) \<and>
   fst (npy_datamem_set_align 32 (init_state (\<lambda>_. 0) [])) = 0 \<and>
   npy_datamem_get_align (snd (npy_datamem_set_align 32 (init_state (\<lambda>_. 0) []))) = 32"
  using set_align_validation [of 24 "init_state (\<lambda>_. 0) []"]
        set_align_validation [of 3 "init_state (\<lambda>_. 0) []"]
        set_align_validation [of 32 "init_state (\<lambda>_. 0) []"]
        not_pow2_24 pow2_32
  by simp

section \<open>What each function leaves alone\<close>

lemma sys_malloc_frame [simp]:
  "datacache (snd (sys_malloc n st)) = datacache st"
  "dimcache (snd (sys_malloc n st)) = dimcache st"
  "PyDataMem_eventhook (snd (sys_malloc n st)) = PyDataMem_eventhook st"
  "PyDataMem_eventhook_user_data (snd (sys_malloc n st)) = PyDataMem_eventhook_user_data st"
  "datamem_align (snd (sys_malloc n st)) = datamem_align st"
  "datamem_align_mask (snd (sys_malloc n st)) = datamem_align_mask st"
  "hook_calls (snd (sys_malloc n st)) = hook_calls st"
  "mem (snd (sys_malloc n st)) = mem st"
  by (simp_all add: sys_malloc_def split: list.splits)

lemma sys_calloc_frame [simp]:
  "datacache (snd (sys_calloc k n st)) = datacache st"
  "dimcache (snd (sys_calloc k n st)) = dimcache st"
  "PyDataMem_eventhook (snd (sys_calloc k n st)) = PyDataMem_eventhook st"
  "PyDataMem_eventhook_user_data (snd (sys_calloc k n st)) = PyDataMem_eventhook_user_data st"
  "datamem_align (snd (sys_calloc k n st)) = datamem_align st"
  "datamem_align_mask (snd (sys_calloc k n st)) = datamem_align_mask st"
  "hook_calls (snd (sys_calloc k n st)) = hook_calls st"
  by (simp_all add: sys_calloc_def split: list.splits)

lemma sys_free_frame [simp]:
  "datacache (sys_free p st) = datacache st"
  "dimcache (sys_free p st) = dimcache st"
  "PyDataMem_eventhook (sys_free p st) = PyDataMem_eventhook st"
  "PyDataMem_eventhook_user_data (sys_free p st) = PyDataMem_eventhook_user_data st"
  "datamem_align (sys_free p st) = datamem_align st"
  "datamem_align_mask (sys_free p st) = datamem_align_mask st"
  "hook_calls (sys_free p st) = hook_calls st"
  "mem (sys_free p st) = mem st"
  "sys_next (sys_free p st) = sys_next st"
  by (simp_all add: sys_free_def)

lemma sys_realloc_frame [simp]:
  "datacache (snd (sys_realloc p n st)) = datacache st"
  "dimcache (snd (sys_realloc p n st)) = dimcache st"
  "PyDataMem_eventhook (snd (sys_realloc p n st)) = PyDataMem_eventhook st"
  "PyDataMem_eventhook_user_data (snd (sys_realloc p n st)) = PyDataMem_eventhook_user_data st"
  "datamem_align (snd (sys_realloc p n st)) = datamem_align st"
  "datamem_align_mask (snd (sys_realloc p n st)) = datamem_align_mask st"
  "hook_calls (snd (sys_realloc p n st)) = hook_calls st"
  by (simp_all add: sys_realloc_def split: list.splits)

lemma align_pointer_frame [simp]:
  "datacache (snd (align_pointer p st)) = datacache st"
  "dimcache (snd (align_pointer p st)) = dimcache st"
  "PyDataMem_eventhook (snd (align_pointer p st)) = PyDataMem_eventhook st"
  "PyDataMem_eventhook_user_data (snd (align_pointer p st)) = PyDataMem_eventhook_user_data st"
  "datamem_align (snd (align_pointer p st)) = datamem_align st"
  "datamem_align_mask (snd (align_pointer p st)) = datamem_align_mask st"
  "hook_calls (snd (align_pointer p st)) = hook_calls st"
  "sys_calls (snd (align_pointer p st)) = sys_calls st"
  "live (snd (align_pointer p st)) = live st"
  "sys_next (snd (align_pointer p st)) = sys_next st"
  by (simp_all add: align_pointer_def Let_def)

lemma call_eventhook_frame [simp]:
  "datacache (call_eventhook p q n st) = datacache st"
  "dimcache (call_eventhook p q n st) = dimcache st"
  "PyDataMem_eventhook (call_eventhook p q n st) = PyDataMem_eventhook st"
  "PyDataMem_eventhook_user_data (call_eventhook p q n st) = PyDataMem_eventhook_user_data st"
  "datamem_align (call_eventhook p q n st) = datamem_align st"
  "datamem_align_mask (call_eventhook p q n st) = datamem_align_mask st"
  "sys_calls (call_eventhook p q n st) = sys_calls st"
  "mem (call_eventhook p q n st) = mem st"
  "live (call_eventhook p q n st) = live st"
  "sys_next (call_eventhook p q n st) = sys_next st"
  by (simp_all add: call_eventhook_def)

lemma PyDataMem_NEW_frame [simp]:
  "datacache (snd (PyDataMem_NEW n st)) = datacache st"
  "dimcache (snd (PyDataMem_NEW n st)) = dimcache st"
  "PyDataMem_eventhook (snd (PyDataMem_NEW n st)) = PyDataMem_eventhook st"
  "PyDataMem_eventhook_user_data (snd (PyDataMem_NEW n st)) = PyDataMem_eventhook_user_data st"
  "datamem_align (snd (PyDataMem_NEW n st)) = datamem_align st"
  "datamem_align_mask (snd (PyDataMem_NEW n st)) = datamem_align_mask st"
  by (simp_all add: PyDataMem_NEW_def Let_def split_def)

lemma PyDataMem_NEW_ZEROED_frame [simp]:
  "datacache (snd (PyDataMem_NEW_ZEROED k n st)) = datacache st"
  "dimcache (snd (PyDataMem_NEW_ZEROED k n st)) = dimcache st"
  "PyDataMem_eventhook (snd (PyDataMem_NEW_ZEROED k n st)) = PyDataMem_eventhook st"
  "PyDataMem_eventhook_user_data (snd (PyDataMem_NEW_ZEROED k n st)) = PyDataMem_eventhook_user_data st"
  "datamem_align (snd (PyDataMem_NEW_ZEROED k n st)) = datamem_align st"
  "datamem_align_mask (snd (PyDataMem_NEW_ZEROED k n st)) = datamem_align_mask st"
  by (simp_all add: PyDataMem_NEW_ZEROED_def Let_def split_def)

lemma PyDataMem_FREE_frame [simp]:
  "datacache (PyDataMem_FREE p st) = datacache st"
  "dimcache (PyDataMem_FREE p st) = dimcache st"
  "PyDataMem_eventhook (PyDataMem_FREE p st) = PyDataMem_eventhook st"
  "PyDataMem_eventhook_user_data (PyDataMem_FREE p st) = PyDataMem_eventhook_user_data st"
  "datamem_align (PyDataMem_FREE p st) = datamem_align st"
  "datamem_align_mask (PyDataMem_FREE p st) = datamem_align_mask st"
  "mem (PyDataMem_FREE p st) = mem st"
  "sys_next (PyDataMem_FREE p st) = sys_next st"
  by (simp_all add: PyDataMem_FREE_def)

lemma PyDataMem_RENEW_frame [simp]:
  "datacache (snd (PyDataMem_RENEW p n st)) = datacache st"
  "dimcache (snd (PyDataMem_RENEW p n st)) = dimcache st"
  "PyDataMem_eventhook (snd (PyDataMem_RENEW p n st)) = PyDataMem_eventhook st"
  "PyDataMem_eventhook_user_data (snd (PyDataMem_RENEW p n st)) = PyDataMem_eventhook_user_data st"
  "datamem_align (snd (PyDataMem_RENEW p n st)) = datamem_align st"
  "datamem_align_mask (snd (PyDataMem_RENEW p n st)) = datamem_align_mask st"
  by (simp_all add: PyDataMem_RENEW_def Let_def split_def)

lemma PyArray_malloc_frame [simp]:
  "datacache (snd (PyArray_malloc n st)) = datacache st"
  "dimcache (snd (PyArray_malloc n st)) = dimcache st"
  "PyDataMem_eventhook (snd (PyArray_malloc n st)) = PyDataMem_eventhook st"
  "PyDataMem_eventhook_user_data (snd (PyArray_malloc n st)) = PyDataMem_eventhook_user_data st"
  "datamem_align (snd (PyArray_malloc n st)) = datamem_align st"
  "datamem_align_mask (snd (PyArray_malloc n st)) = datamem_align_mask st"
  "hook_calls (snd (PyArray_malloc n st)) = hook_calls st"
  "mem (snd (PyArray_malloc n st)) = mem st"
  by (simp_all add: PyArray_malloc_def)

lemma PyArray_free_frame [simp]:
  "datacache (PyArray_free p st) = datacache st"
  "dimcache (PyArray_free p st) = dimcache st"
  "PyDataMem_eventhook (PyArray_free p st) = PyDataMem_eventhook st"
  "PyDataMem_eventhook_user_data (PyArray_free p st) = PyDataMem_eventhook_user_data st"
  "datamem_align (PyArray_free p st) = datamem_align st"
  "datamem_align_mask (PyArray_free p st) = datamem_align_mask st"
  "hook_calls (PyArray_free p st) = hook_calls st"
  "mem (PyArray_free p st) = mem st"
  "sys_next (PyArray_free p st) = sys_next st"
  by (simp_all add: PyArray_free_def)


lemma fst_align_pointer:
  "fst (align_pointer p st) = (p + 8 + datamem_align_mask st) AND NOT (datamem_align_mask st)"
  by (simp add: align_pointer_def Let_def)

text \<open>The two branches of \<^verbatim>\<open>npy_alloc_cache\<close> and of \<^verbatim>\<open>npy_free_cache\<close>.\<close>

lemma npy_alloc_cache_hit:
  assumes "n < 1024" "0 < available (datacache st ! unat n)"
  shows "npy_alloc_cache n st =
           (ptrs (datacache st ! unat n) ! unat (available (datacache st ! unat n) - 1),
            st\<lparr>datacache := (datacache st)
               [unat n := (datacache st ! unat n)
                  \<lparr>available := available (datacache st ! unat n) - 1\<rparr>]\<rparr>)"
  using assms by (simp add: npy_alloc_cache_def u_npy_alloc_cache_def NBUCKETS_def Let_def)

lemma npy_alloc_cache_miss:
  assumes "\<not> (n < 1024 \<and> 0 < available (datacache st ! unat n))"
  shows "npy_alloc_cache n st = PyDataMem_NEW n st"
  using assms by (auto simp add: npy_alloc_cache_def u_npy_alloc_cache_def NBUCKETS_def Let_def)

lemma npy_free_cache_push:
  assumes "p \<noteq> 0" "n < 1024" "available (datacache st ! unat n) < 7"
  shows "npy_free_cache p n st =
           st\<lparr>datacache := (datacache st)
              [unat n := (datacache st ! unat n)
                 \<lparr>available := available (datacache st ! unat n) + 1,
                  ptrs := (ptrs (datacache st ! unat n))
                            [unat (available (datacache st ! unat n)) := p]\<rparr>]\<rparr>"
  using assms
  by (simp add: npy_free_cache_def u_npy_free_cache_def NBUCKETS_def NCACHE_def Let_def)

lemma npy_free_cache_bypass:
  assumes "\<not> (p \<noteq> 0 \<and> n < 1024 \<and> available (datacache st ! unat n) < 7)"
  shows "npy_free_cache p n st = PyDataMem_FREE p st"
  using assms
  by (auto simp add: npy_free_cache_def u_npy_free_cache_def NBUCKETS_def NCACHE_def Let_def)

lemma cache_ok_bucket:
  fixes n :: "64 word"
  assumes "cache_ok st" "n < 1024"
  shows "unat n < length (datacache st)"
    and "available (datacache st ! unat n) \<le> 7"
    and "length (ptrs (datacache st ! unat n)) = 7"
proof -
  have lt: "unat n < 1024" using assms(2) by (simp add: word_less_nat_alt)
  then show "unat n < length (datacache st)" using assms(1) by (simp add: cache_ok_def)
  then have "bucket_ok (datacache st ! unat n)"
    using assms(1) by (simp add: cache_ok_def list_all_length)
  then show "available (datacache st ! unat n) \<le> 7"
    and "length (ptrs (datacache st ! unat n)) = 7"
    by (simp_all add: bucket_ok_def NCACHE_def)
qed

lemma word_pred_less_7: "0 < a \<Longrightarrow> a \<le> 7 \<Longrightarrow> a - 1 < 7" for a :: "64 word"
  by unat_arith

lemma word_less_7_unat: "a < 7 \<Longrightarrow> unat a < 7" for a :: "64 word"
  by (simp add: word_less_nat_alt)

lemma word_succ_pred:
  fixes a :: "64 word"
  assumes "a < 7"
  shows "0 < a + 1 \<and> a + 1 - 1 = a \<and> a + 1 \<le> 7"
proof -
  have u: "unat a < 7" using assms by (simp add: word_less_nat_alt)
  then have u1: "unat (a + 1) = unat a + 1" by (simp add: unat_word_ariths)
  have "0 < a + 1" by (simp add: word_less_nat_alt u1)
  moreover have "a + 1 \<le> 7" using u by (simp add: word_le_nat_alt u1)
  ultimately show ?thesis by simp
qed

text \<open>After an allocation of a cached size, the bucket has room for one more entry.\<close>

lemma after_alloc_room:
  assumes "n < 1024" "cache_ok st" "npy_alloc_cache n st = (p, st1)"
  shows "available (datacache st1 ! unat n) < 7"
    and "length (ptrs (datacache st1 ! unat n)) = 7"
    and "unat n < length (datacache st1)"
proof -
  note b = cache_ok_bucket [OF assms(2,1)]
  show "available (datacache st1 ! unat n) < 7"
  proof (cases "0 < available (datacache st ! unat n)")
    case True
    with assms b show ?thesis
      by (auto simp: npy_alloc_cache_hit word_pred_less_7)
  next
    case False
    then have "available (datacache st ! unat n) = 0" by (simp add: word_gt_0)
    moreover have "st1 = snd (PyDataMem_NEW n st)"
      using False assms(3) by (simp add: npy_alloc_cache_miss)
    ultimately show ?thesis by simp
  qed
  show "length (ptrs (datacache st1 ! unat n)) = 7"
  proof (cases "0 < available (datacache st ! unat n)")
    case True
    with assms b show ?thesis by (auto simp: npy_alloc_cache_hit)
  next
    case False
    then have "st1 = snd (PyDataMem_NEW n st)"
      using assms(3) by (simp add: npy_alloc_cache_miss)
    then show ?thesis using b by simp
  qed
  show "unat n < length (datacache st1)"
  proof (cases "0 < available (datacache st ! unat n)")
    case True
    with assms b show ?thesis by (auto simp: npy_alloc_cache_hit)
  next
    case False
    then have "st1 = snd (PyDataMem_NEW n st)"
      using assms(3) by (simp add: npy_alloc_cache_miss)
    then show ?thesis using b by simp
  qed
qed

text \<open>Allocate, release, allocate again: the core of the cache's reuse.\<close>

lemma alloc_free_alloc:
  assumes "n < 1024" and "cache_ok st"
    and "npy_alloc_cache n st = (p, st1)" and "p \<noteq> 0"
    and "st2 = npy_free_cache p n st1"
    and "datacache st3 ! unat n = datacache st2 ! unat n"
  shows "fst (npy_alloc_cache n st3) = p \<and>
         sys_calls st2 = sys_calls st1 \<and> hook_calls st2 = hook_calls st1 \<and>
         sys_calls (snd (npy_alloc_cache n st3)) = sys_calls st3 \<and>
         hook_calls (snd (npy_alloc_cache n st3)) = hook_calls st3 \<and>
         available (datacache st2 ! unat n) = available (datacache st1 ! unat n) + 1 \<and>
         ptrs (datacache st2 ! unat n) ! unat (available (datacache st2 ! unat n) - 1) = p"
proof -
  note room = after_alloc_room [OF assms(1,2,3)]
  let ?a = "available (datacache st1 ! unat n)"
  have ua: "unat ?a < 7" using room(1) by (rule word_less_7_unat)
  have st2: "st2 = st1\<lparr>datacache := (datacache st1)
              [unat n := (datacache st1 ! unat n)
                 \<lparr>available := ?a + 1, ptrs := (ptrs (datacache st1 ! unat n)) [unat ?a := p]\<rparr>]\<rparr>"
    using assms(1,4,5) room(1) by (simp add: npy_free_cache_push)
  have b2: "datacache st2 ! unat n =
              (datacache st1 ! unat n)
                 \<lparr>available := ?a + 1, ptrs := (ptrs (datacache st1 ! unat n)) [unat ?a := p]\<rparr>"
    using room(3) by (simp add: st2)
  have top: "ptrs (datacache st2 ! unat n) ! unat (available (datacache st2 ! unat n) - 1) = p"
    using ua room(2) word_succ_pred [OF room(1)] by (simp add: b2)
  have pos: "0 < available (datacache st3 ! unat n)"
    using word_succ_pred [OF room(1)] by (simp add: assms(6) b2)
  have hit: "npy_alloc_cache n st3 =
           (ptrs (datacache st3 ! unat n) ! unat (available (datacache st3 ! unat n) - 1),
            st3\<lparr>datacache := (datacache st3)
               [unat n := (datacache st3 ! unat n)
                  \<lparr>available := available (datacache st3 ! unat n) - 1\<rparr>]\<rparr>)"
    using assms(1) pos by (rule npy_alloc_cache_hit)
  show ?thesis
    using top room(3) by (simp add: hit assms(6)) (simp add: st2)
qed

text \<open>
  C1.  For a byte count \<open>n < 1024\<close> and a well-formed cache: allocate \<open>n\<close> bytes with
  \<^verbatim>\<open>npy_alloc_cache\<close>, give the non-null result back with \<^verbatim>\<open>npy_free_cache\<close> and the same
  \<open>n\<close>, and the next \<^verbatim>\<open>npy_alloc_cache\<close> of \<open>n\<close> bytes, in any state \<open>st3\<close> in which bucket
  \<open>n\<close> is as the release left it, returns the same address.  The release pushed the
  address on top of the bucket, the second allocation pops it, and neither calls the C
  library or the hook.
\<close>

theorem cache_round_trip:
  assumes "n < 1024" and "cache_ok st"
    and "npy_alloc_cache n st = (p, st1)" and "p \<noteq> 0"
    and "st2 = npy_free_cache p n st1"
    and "datacache st3 ! unat n = datacache st2 ! unat n"
  shows "fst (npy_alloc_cache n st3) = p \<and>
         sys_calls st2 = sys_calls st1 \<and> hook_calls st2 = hook_calls st1 \<and>
         sys_calls (snd (npy_alloc_cache n st3)) = sys_calls st3 \<and>
         hook_calls (snd (npy_alloc_cache n st3)) = hook_calls st3 \<and>
         available (datacache st2 ! unat n) = available (datacache st1 ! unat n) + 1 \<and>
         ptrs (datacache st2 ! unat n) ! unat (available (datacache st2 ! unat n) - 1) = p"
  using assms by (rule alloc_free_alloc)

lemma cache_ok_init: "cache_ok (init_state m answers)"
  by (simp add: cache_ok_def init_state_def bucket_ok_def empty_bucket_def NCACHE_def list_all_iff)

theorem cache_round_trip_witness:
  "(100 :: 64 word) < 1024 \<and> cache_ok (init_state (\<lambda>_. 0) [0x1000]) \<and>
   fst (npy_alloc_cache 100 (init_state (\<lambda>_. 0) [0x1000])) = 0x1010 \<and>
   fst (npy_alloc_cache 100
     (npy_free_cache (fst (npy_alloc_cache 100 (init_state (\<lambda>_. 0) [0x1000]))) 100
        (snd (npy_alloc_cache 100 (init_state (\<lambda>_. 0) [0x1000]))))) = 0x1010"
proof -
  let ?st = "init_state (\<lambda>_. 0) [0x1000]"
  have n: "(100 :: 64 word) < 1024" by simp
  have ok: "cache_ok ?st" by (rule cache_ok_init)
  have p: "fst (npy_alloc_cache 100 ?st) = 0x1010"
    by (simp add: npy_alloc_cache_miss init_state_def empty_bucket_def PyDataMem_NEW_def
        sys_malloc_def get_aligned_size_def align_pointer_def MIN_ALIGN_def Let_def)
  have eq: "npy_alloc_cache 100 ?st = (fst (npy_alloc_cache 100 ?st), snd (npy_alloc_cache 100 ?st))"
    by simp
  have nz: "fst (npy_alloc_cache 100 ?st) \<noteq> 0" by (simp add: p)
  from cache_round_trip [OF n ok eq nz refl refl]
  have "fst (npy_alloc_cache 100 (npy_free_cache (fst (npy_alloc_cache 100 ?st)) 100
            (snd (npy_alloc_cache 100 ?st)))) = fst (npy_alloc_cache 100 ?st)"
    by (rule conjunct1)
  then have "fst (npy_alloc_cache 100 (npy_free_cache (fst (npy_alloc_cache 100 ?st)) 100
            (snd (npy_alloc_cache 100 ?st)))) = 0x1010"
    by (simp only: p)
  with n ok p show ?thesis by blast
qed

section \<open>The event hook\<close>

lemma hook_calls_call_eventhook:
  "hook_calls (call_eventhook old new n st) =
     (if PyDataMem_eventhook st \<noteq> 0
      then hook_calls st @ [HookCall (PyDataMem_eventhook st) old new n
                              (PyDataMem_eventhook_user_data st)]
      else hook_calls st)"
  by (simp add: call_eventhook_def)

lemma hook_calls_NEW:
  "hook_calls (snd (PyDataMem_NEW n st)) =
     hook_calls (call_eventhook 0 (fst (PyDataMem_NEW n st)) n st)"
  by (simp add: PyDataMem_NEW_def Let_def split_def hook_calls_call_eventhook)

lemma hook_calls_NEW_ZEROED:
  "hook_calls (snd (PyDataMem_NEW_ZEROED k e st)) =
     hook_calls (call_eventhook 0 (fst (PyDataMem_NEW_ZEROED k e st)) (k * e) st)"
  by (simp add: PyDataMem_NEW_ZEROED_def Let_def split_def hook_calls_call_eventhook)

lemma hook_calls_FREE:
  "hook_calls (PyDataMem_FREE p st) = hook_calls (call_eventhook p 0 0 st)"
  by (simp add: PyDataMem_FREE_def hook_calls_call_eventhook)

lemma hook_calls_RENEW:
  "hook_calls (snd (PyDataMem_RENEW p n st)) =
     hook_calls (call_eventhook p (fst (PyDataMem_RENEW p n st)) n st)"
  by (simp add: PyDataMem_RENEW_def Let_def split_def hook_calls_call_eventhook)

lemma npy_alloc_cache_hit_quiet:
  fixes n :: "64 word"
  assumes "n < 1024" "0 < available (datacache st ! unat n)"
  shows "hook_calls (snd (npy_alloc_cache n st)) = hook_calls st"
    and "sys_calls (snd (npy_alloc_cache n st)) = sys_calls st"
  using assms by (simp_all add: npy_alloc_cache_hit)

lemma npy_free_cache_push_quiet:
  fixes n :: "64 word"
  assumes "p \<noteq> 0" "n < 1024" "available (datacache st ! unat n) < 7"
  shows "hook_calls (npy_free_cache p n st) = hook_calls st"
    and "sys_calls (npy_free_cache p n st) = sys_calls st"
  using assms by (simp_all add: npy_free_cache_push)

text \<open>The scenario of the spec: a miss, a release into the cache, a hit.\<close>

lemma hook_scenario:
  fixes n :: "64 word"
  assumes "n < 1024" "cache_ok st" "available (datacache st ! unat n) = 0"
    and "PyDataMem_eventhook st \<noteq> 0"
    and "npy_alloc_cache n st = (a, st1)" "a \<noteq> 0"
    and "st2 = npy_free_cache a n st1"
    and "npy_alloc_cache n st2 = (a', st3)"
  shows "hook_calls st1 = hook_calls st @
           [HookCall (PyDataMem_eventhook st) 0 a n (PyDataMem_eventhook_user_data st)]"
    and "hook_calls st2 = hook_calls st1"
    and "hook_calls st3 = hook_calls st2"
    and "a' = a"
proof -
  have miss: "npy_alloc_cache n st = PyDataMem_NEW n st"
    using assms(3) by (simp add: npy_alloc_cache_miss)
  with assms(5) have a: "a = fst (PyDataMem_NEW n st)" and st1: "st1 = snd (PyDataMem_NEW n st)"
    by simp_all
  show "hook_calls st1 = hook_calls st @
           [HookCall (PyDataMem_eventhook st) 0 a n (PyDataMem_eventhook_user_data st)]"
    using assms(4) by (simp add: st1 a hook_calls_NEW hook_calls_call_eventhook)
  note rt = alloc_free_alloc [OF assms(1,2,5,6,7) refl]
  from rt show "hook_calls st2 = hook_calls st1" by simp
  from rt assms(8) show "hook_calls st3 = hook_calls st2" by simp
  from rt assms(8) show "a' = a" by simp
qed


text \<open>
  C2.  With a hook registered, each call of \<^verbatim>\<open>PyDataMem_NEW\<close>, \<^verbatim>\<open>PyDataMem_NEW_ZEROED\<close>,
  \<^verbatim>\<open>PyDataMem_FREE\<close> and \<^verbatim>\<open>PyDataMem_RENEW\<close> invokes it exactly once, with
  \<open>(NULL, result, size)\<close>, \<open>(ptr, NULL, 0)\<close> and \<open>(ptr, result, size)\<close>; an allocation
  or a release that the cache serves invokes it not at all.  Allocating 500 bytes on an
  empty bucket invokes it once with \<open>(NULL, addr, 500)\<close>, releasing \<open>addr\<close> and
  allocating 500 bytes again invoke it no more, and the same \<open>addr\<close> comes back.
\<close>

theorem event_hook_contract:
  fixes k :: "64 word"
  assumes "PyDataMem_eventhook st \<noteq> 0"
  shows "hook_calls (snd (PyDataMem_NEW n st)) = hook_calls st @
           [HookCall (PyDataMem_eventhook st) 0 (fst (PyDataMem_NEW n st)) n
              (PyDataMem_eventhook_user_data st)] \<and>
         hook_calls (snd (PyDataMem_NEW_ZEROED c e st)) = hook_calls st @
           [HookCall (PyDataMem_eventhook st) 0 (fst (PyDataMem_NEW_ZEROED c e st)) (c * e)
              (PyDataMem_eventhook_user_data st)] \<and>
         hook_calls (PyDataMem_FREE p st) = hook_calls st @
           [HookCall (PyDataMem_eventhook st) p 0 0 (PyDataMem_eventhook_user_data st)] \<and>
         hook_calls (snd (PyDataMem_RENEW p n st)) = hook_calls st @
           [HookCall (PyDataMem_eventhook st) p (fst (PyDataMem_RENEW p n st)) n
              (PyDataMem_eventhook_user_data st)] \<and>
         (k < 1024 \<and> 0 < available (datacache st ! unat k) \<longrightarrow>
            hook_calls (snd (npy_alloc_cache k st)) = hook_calls st) \<and>
         (q \<noteq> 0 \<and> k < 1024 \<and> available (datacache st ! unat k) < 7 \<longrightarrow>
            hook_calls (npy_free_cache q k st) = hook_calls st) \<and>
         (cache_ok st \<and> available (datacache st ! 500) = 0 \<and>
          fst (npy_alloc_cache 500 st) \<noteq> 0 \<longrightarrow>
            (let (a, st1) = npy_alloc_cache 500 st;
                 st2 = npy_free_cache a 500 st1;
                 (a', st3) = npy_alloc_cache 500 st2
             in hook_calls st1 = hook_calls st @
                  [HookCall (PyDataMem_eventhook st) 0 a 500 (PyDataMem_eventhook_user_data st)] \<and>
                hook_calls st2 = hook_calls st1 \<and>
                hook_calls st3 = hook_calls st2 \<and>
                a' = a))"
proof -
  have scen: "let (a, st1) = npy_alloc_cache 500 st;
                 st2 = npy_free_cache a 500 st1;
                 (a', st3) = npy_alloc_cache 500 st2
             in hook_calls st1 = hook_calls st @
                  [HookCall (PyDataMem_eventhook st) 0 a 500 (PyDataMem_eventhook_user_data st)] \<and>
                hook_calls st2 = hook_calls st1 \<and>
                hook_calls st3 = hook_calls st2 \<and>
                a' = a"
    if ok: "cache_ok st" and e: "available (datacache st ! 500) = 0"
      and nz: "fst (npy_alloc_cache 500 st) \<noteq> 0"
  proof -
    obtain a st1 where a: "npy_alloc_cache 500 st = (a, st1)" by (cases "npy_alloc_cache 500 st")
    obtain a' st3 where a': "npy_alloc_cache 500 (npy_free_cache a 500 st1) = (a', st3)"
      by (cases "npy_alloc_cache 500 (npy_free_cache a 500 st1)")
    have n: "(500 :: 64 word) < 1024" by simp
    have e': "available (datacache st ! unat (500 :: 64 word)) = 0" using e by simp
    have anz: "a \<noteq> 0" using nz a by simp
    note sc = hook_scenario [OF n ok e' assms a anz refl a']
    show ?thesis using sc by (simp add: a a')
  qed
  show ?thesis
    using assms scen
    by (simp add: hook_calls_NEW hook_calls_NEW_ZEROED hook_calls_FREE hook_calls_RENEW
        hook_calls_call_eventhook npy_alloc_cache_hit_quiet npy_free_cache_push_quiet)
qed


lemma hooked_state_facts:
  "PyDataMem_eventhook hooked_state = 0x4000"
  "PyDataMem_eventhook_user_data hooked_state = 0x77"
  "hook_calls hooked_state = []"
  "cache_ok hooked_state"
  "available (datacache hooked_state ! 500) = 0"
  "fst (npy_alloc_cache 500 hooked_state) = 0x1010"
proof -
  show "PyDataMem_eventhook hooked_state = 0x4000"
    "PyDataMem_eventhook_user_data hooked_state = 0x77"
    "hook_calls hooked_state = []"
    by (simp_all add: hooked_state_def PyDataMem_SetEventHook_def init_state_def)
  have "cache_ok (init_state (\<lambda>_. 0) [0x1000])" by (rule cache_ok_init)
  then show "cache_ok hooked_state"
    by (simp add: hooked_state_def PyDataMem_SetEventHook_def cache_ok_def)
  show e: "available (datacache hooked_state ! 500) = 0"
    by (simp add: hooked_state_def PyDataMem_SetEventHook_def init_state_def empty_bucket_def)
  have "npy_alloc_cache 500 hooked_state = PyDataMem_NEW 500 hooked_state"
    using e by (simp add: npy_alloc_cache_miss)
  then show "fst (npy_alloc_cache 500 hooked_state) = 0x1010"
    by (simp add: hooked_state_def PyDataMem_SetEventHook_def init_state_def PyDataMem_NEW_def
        sys_malloc_def get_aligned_size_def align_pointer_def MIN_ALIGN_def Let_def)
qed

lemma missed_state_facts:
  "PyDataMem_eventhook missed_state = 0x4000"
  "available (datacache missed_state ! 500) = 0"
  "length (datacache missed_state) = 1024"
proof -
  have "npy_alloc_cache 500 hooked_state = PyDataMem_NEW 500 hooked_state"
    using hooked_state_facts(5) by (simp add: npy_alloc_cache_miss)
  then have m: "missed_state = snd (PyDataMem_NEW 500 hooked_state)"
    by (simp add: missed_state_def)
  show "PyDataMem_eventhook missed_state = 0x4000"
    "available (datacache missed_state ! 500) = 0"
    by (simp_all add: m hooked_state_facts)
  show "length (datacache missed_state) = 1024"
    using hooked_state_facts(4) by (simp add: m cache_ok_def)
qed

lemma cached_state_facts:
  "PyDataMem_eventhook cached_state = 0x4000"
  "available (datacache cached_state ! 500) = 1"
  by (simp_all add: cached_state_def npy_free_cache_push missed_state_facts)

theorem event_hook_contract_witness:
  "PyDataMem_eventhook hooked_state \<noteq> 0 \<and> cache_ok hooked_state \<and>
   available (datacache hooked_state ! 500) = 0 \<and>
   (let (a, st1) = npy_alloc_cache 500 hooked_state;
        st2 = npy_free_cache a 500 st1;
        (a', st3) = npy_alloc_cache 500 st2
    in a = 0x1010 \<and> hook_calls st1 = [HookCall 0x4000 0 0x1010 500 0x77] \<and>
       hook_calls st2 = hook_calls st1 \<and> hook_calls st3 = hook_calls st2 \<and> a' = a) \<and>
   available (datacache missed_state ! 500) < 7 \<and>
   hook_calls (npy_free_cache 0x1010 500 missed_state) = hook_calls missed_state \<and>
   0 < available (datacache cached_state ! 500) \<and>
   hook_calls (snd (npy_alloc_cache 500 cached_state)) = hook_calls cached_state"
  using event_hook_contract [of hooked_state 0 0 0 0 0 0]
    event_hook_contract [of missed_state 0 0 0 0 500 "0x1010"]
    event_hook_contract [of cached_state 0 0 0 0 500 0]
    hooked_state_facts missed_state_facts cached_state_facts
  by (simp add: split_def Let_def)

section \<open>Releasing the null pointer\<close>

text \<open>A release with the null pointer.\<close>

lemma npy_free_cache_null: "npy_free_cache 0 n st = call_eventhook 0 0 0 st"
  by (simp add: npy_free_cache_def u_npy_free_cache_def PyDataMem_FREE_def)

lemma npy_free_cache_dim_null: "npy_free_cache_dim 0 n st = st"
  by (simp add: npy_free_cache_dim_def u_npy_free_cache_def PyArray_free_def sys_free_def)

text \<open>
  The claim C9 as stated (a null release never invokes the registered hook) fails:
  \<^verbatim>\<open>npy_free_cache(NULL, 5)\<close> with a hook registered invokes it with \<open>(NULL, NULL, 0)\<close>.
\<close>

theorem null_release_counterexample:
  "hook_calls hooked_state = [] \<and>
   hook_calls (npy_free_cache 0 5 hooked_state) = [HookCall 0x4000 0 0 0 0x77] \<and>
   npy_free_cache 0 5 hooked_state \<noteq> hooked_state"
proof -
  have h: "hook_calls (npy_free_cache 0 5 hooked_state) = [HookCall 0x4000 0 0 0 0x77]"
    by (simp add: npy_free_cache_null call_eventhook_def hooked_state_facts)
  moreover have "npy_free_cache 0 5 hooked_state \<noteq> hooked_state"
  proof
    assume "npy_free_cache 0 5 hooked_state = hooked_state"
    then have "hook_calls (npy_free_cache 0 5 hooked_state) = hook_calls hooked_state" by simp
    then show False by (simp add: h hooked_state_facts)
  qed
  ultimately show ?thesis by (simp add: hooked_state_facts)
qed

text \<open>
  C9, amended.  For every count, \<^verbatim>\<open>npy_free_cache\<close> with a null address changes no
  bucket, releases nothing to the C library and leaves the memory alone; with no hook
  registered it changes nothing at all, and with a hook registered its one effect is
  one invocation of the hook with \<open>(NULL, NULL, 0)\<close>, as every \<^verbatim>\<open>PyDataMem_FREE\<close> makes.
  \<^verbatim>\<open>npy_free_cache_dim\<close> with a null address changes nothing.
\<close>

theorem null_release:
  "datacache (npy_free_cache 0 n st) = datacache st \<and>
   dimcache (npy_free_cache 0 n st) = dimcache st \<and>
   live (npy_free_cache 0 n st) = live st \<and>
   sys_calls (npy_free_cache 0 n st) = sys_calls st \<and>
   mem (npy_free_cache 0 n st) = mem st \<and>
   (PyDataMem_eventhook st = 0 \<longrightarrow> npy_free_cache 0 n st = st) \<and>
   (PyDataMem_eventhook st \<noteq> 0 \<longrightarrow>
      npy_free_cache 0 n st =
        st\<lparr>hook_calls := hook_calls st @
             [HookCall (PyDataMem_eventhook st) 0 0 0 (PyDataMem_eventhook_user_data st)]\<rparr>) \<and>
   npy_free_cache_dim 0 n st = st"
  by (simp add: npy_free_cache_null npy_free_cache_dim_null) (simp add: call_eventhook_def)

theorem null_release_witness:
  "PyDataMem_eventhook (init_state (\<lambda>_. 0) []) = 0 \<and>
   npy_free_cache 0 5 (init_state (\<lambda>_. 0) []) = init_state (\<lambda>_. 0) [] \<and>
   PyDataMem_eventhook hooked_state \<noteq> 0 \<and>
   npy_free_cache 0 5 hooked_state =
     hooked_state\<lparr>hook_calls := [HookCall 0x4000 0 0 0 0x77]\<rparr>"
proof -
  have z: "PyDataMem_eventhook (init_state (\<lambda>_. 0) []) = 0" by (simp add: init_state_def)
  show ?thesis
    using null_release [of 5 "init_state (\<lambda>_. 0) []"] null_release [of 5 hooked_state]
      z hooked_state_facts
    by simp
qed

section \<open>The capacity of a bucket\<close>

lemma list_all_update:
  "list_all P xs \<Longrightarrow> (i < length xs \<Longrightarrow> P y) \<Longrightarrow> list_all P (xs[i := y])"
  by (cases "i < length xs") (auto simp: list_all_length nth_list_update)

lemma bucket_ok_pop:
  "bucket_ok b \<Longrightarrow> 0 < available b \<Longrightarrow> bucket_ok (b\<lparr>available := available b - 1\<rparr>)"
  using word_pred_less_7 [of "available b"] by (auto simp: bucket_ok_def NCACHE_def)

lemma bucket_ok_push:
  "bucket_ok b \<Longrightarrow> available b < NCACHE \<Longrightarrow>
   bucket_ok (b\<lparr>available := available b + 1, ptrs := (ptrs b)[i := p]\<rparr>)"
  using word_succ_pred [of "available b"] by (auto simp: bucket_ok_def NCACHE_def)

lemma bucket_ok_reset: "bucket_ok b \<Longrightarrow> bucket_ok (b\<lparr>available := 0\<rparr>)"
  by (simp add: bucket_ok_def)

lemma cache_ok_get: "cache_ok st \<Longrightarrow> list_all bucket_ok (get_cache cache st)"
  by (cases cache) (simp_all add: cache_ok_def)

lemma cache_ok_set:
  "cache_ok st \<Longrightarrow> length c = length (get_cache cache st) \<Longrightarrow> list_all bucket_ok c \<Longrightarrow>
   cache_ok (set_cache cache c st)"
  by (cases cache) (simp_all add: cache_ok_def)

lemma cache_ok_frame:
  "datacache st' = datacache st \<Longrightarrow> dimcache st' = dimcache st \<Longrightarrow> cache_ok st' = cache_ok st"
  by (simp add: cache_ok_def)

lemma cache_ok_update:
  assumes "cache_ok st"
    and "i < length (get_cache cache st) \<Longrightarrow> bucket_ok b"
  shows "cache_ok (set_cache cache ((get_cache cache st)[i := b]) st)"
  using assms by (intro cache_ok_set list_all_update cache_ok_get) simp_all

lemma bucket_in_cache:
  "cache_ok st \<Longrightarrow> i < length (get_cache cache st) \<Longrightarrow> bucket_ok (get_cache cache st ! i)"
  using cache_ok_get [of st cache] by (simp add: list_all_length)

lemma u_npy_alloc_cache_ok:
  assumes "cache_ok st"
    and "\<And>m s. datacache (snd (alloc m s)) = datacache s"
    and "\<And>m s. dimcache (snd (alloc m s)) = dimcache s"
  shows "cache_ok (snd (u_npy_alloc_cache nelem esz msz cache alloc st))"
proof (cases "nelem < ucast msz \<and> 0 < available (get_cache cache st ! unat nelem)")
  case True
  then show ?thesis
    using assms(1)
    by (simp add: u_npy_alloc_cache_def Let_def cache_ok_update bucket_ok_pop bucket_in_cache)
next
  case False
  then have "u_npy_alloc_cache nelem esz msz cache alloc st = alloc (nelem * esz) st"
    by (auto simp: u_npy_alloc_cache_def)
  then show ?thesis
    using assms by (simp add: cache_ok_frame [of "snd (alloc (nelem * esz) st)" st])
qed

lemma u_npy_free_cache_ok:
  assumes "cache_ok st"
    and "\<And>q s. datacache (dealloc q s) = datacache s"
    and "\<And>q s. dimcache (dealloc q s) = dimcache s"
  shows "cache_ok (u_npy_free_cache p nelem msz cache dealloc st)"
proof (cases "p \<noteq> 0 \<and> nelem < ucast msz \<and>
              available (get_cache cache st ! unat nelem) < NCACHE")
  case True
  then show ?thesis
    using assms(1)
    by (simp add: u_npy_free_cache_def Let_def cache_ok_update bucket_ok_push bucket_in_cache)
next
  case False
  then have "u_npy_free_cache p nelem msz cache dealloc st = dealloc p st"
    by (auto simp: u_npy_free_cache_def)
  then show ?thesis
    using assms by (simp add: cache_ok_frame [of "dealloc p st" st])
qed

lemma fold_dealloc_frame:
  assumes "\<And>q s. datacache (dealloc q s) = datacache s"
    and "\<And>q s. dimcache (dealloc q s) = dimcache s"
  shows "datacache (fold (\<lambda>i s. dealloc (f s i) s) idxs st) = datacache st \<and>
         dimcache (fold (\<lambda>i s. dealloc (f s i) s) idxs st) = dimcache st"
  using assms by (induction idxs arbitrary: st) simp_all

lemma clear_bucket_ok:
  assumes "cache_ok st"
    and "\<And>q s. datacache (dealloc q s) = datacache s"
    and "\<And>q s. dimcache (dealloc q s) = dimcache s"
  shows "cache_ok (clear_bucket cache dealloc nelem st)"
proof -
  let ?st1 = "fold (\<lambda>i s. dealloc (ptrs (get_cache cache s ! nelem) ! i) s)
                [0 ..< unat (available (get_cache cache st ! nelem))] st"
  have fr: "datacache ?st1 = datacache st \<and> dimcache ?st1 = dimcache st"
    using assms(2,3) by (rule fold_dealloc_frame)
  then have "cache_ok ?st1" using assms(1) by (simp add: cache_ok_frame [of ?st1 st])
  then have "cache_ok (set_cache cache
      ((get_cache cache ?st1)[nelem := (get_cache cache ?st1 ! nelem)\<lparr>available := 0\<rparr>]) ?st1)"
    by (simp add: cache_ok_update bucket_ok_reset bucket_in_cache)
  then show ?thesis by (simp add: clear_bucket_def Let_def)
qed

lemma u_npy_clear_cache_ok:
  assumes "cache_ok st"
    and "\<And>q s. datacache (dealloc q s) = datacache s"
    and "\<And>q s. dimcache (dealloc q s) = dimcache s"
  shows "cache_ok (u_npy_clear_cache msz cache dealloc st)"
proof -
  have "cache_ok (fold (clear_bucket cache dealloc) idxs st)" for idxs
    using assms(1)
  proof (induction idxs arbitrary: st)
    case Nil
    then show ?case by simp
  next
    case (Cons i idxs)
    then show ?case using assms(2,3) by (simp add: clear_bucket_ok)
  qed
  then show ?thesis by (simp add: u_npy_clear_cache_def)
qed

lemma cache_ok_align_update:
  "cache_ok (st\<lparr>datamem_align := a, datamem_align_mask := m\<rparr>) = cache_ok st"
  by (simp add: cache_ok_def)

lemma cache_ok_hook_update:
  "cache_ok (st\<lparr>PyDataMem_eventhook := f, PyDataMem_eventhook_user_data := d\<rparr>) = cache_ok st"
  by (simp add: cache_ok_def)

lemma npy_datamem_set_align_ok:
  assumes "cache_ok st"
  shows "cache_ok (snd (npy_datamem_set_align a st))"
  using assms
  by (simp add: npy_datamem_set_align_def Let_def cache_ok_align_update u_npy_clear_cache_ok)

lemma npy_alloc_cache_zero_ok:
  assumes "cache_ok st"
  shows "cache_ok (snd (npy_alloc_cache_zero n st))"
proof (cases "n < ucast NBUCKETS")
  case True
  have "cache_ok (snd (u_npy_alloc_cache n 1 NBUCKETS DataCache PyDataMem_NEW st))"
    using assms by (simp add: u_npy_alloc_cache_ok)
  then show ?thesis
    using True by (simp add: npy_alloc_cache_zero_def split_def Let_def cache_ok_def)
next
  case False
  then show ?thesis
    using assms
    by (simp add: npy_alloc_cache_zero_def
        cache_ok_frame [of "snd (PyDataMem_NEW_ZEROED n 1 st)" st])
qed

text \<open>Every call keeps the tables well formed.\<close>

lemma step_cache_ok:
  assumes "cache_ok st"
  shows "cache_ok (step x st)"
proof (cases x)
  case (Clear_cache c)
  then show ?thesis using assms by (cases c) (simp_all add: u_npy_clear_cache_ok)
qed (use assms in \<open>simp_all add: npy_alloc_cache_def npy_free_cache_def npy_alloc_cache_dim_def
      npy_free_cache_dim_def u_npy_alloc_cache_ok u_npy_free_cache_ok npy_alloc_cache_zero_ok
      npy_datamem_set_align_ok PyDataMem_SetEventHook_def cache_ok_hook_update
      cache_ok_frame [of "snd (PyDataMem_NEW _ st)" st]
      cache_ok_frame [of "snd (PyDataMem_NEW_ZEROED _ _ st)" st]
      cache_ok_frame [of "PyDataMem_FREE _ st" st]
      cache_ok_frame [of "snd (PyDataMem_RENEW _ _ st)" st]\<close>)

lemma run_cache_ok: "cache_ok st \<Longrightarrow> cache_ok (run ops st)"
  unfolding run_def by (induction ops arbitrary: st) (simp_all add: step_cache_ok)


lemma npy_free_cache_dim_bypass:
  assumes "\<not> (p \<noteq> 0 \<and> (if n < 2 then 2 else n) < 16 \<and>
              available (dimcache st ! unat (if n < 2 then 2 else n)) < 7)"
  shows "npy_free_cache_dim p n st = PyArray_free p st"
  using assms
  by (auto simp add: npy_free_cache_dim_def u_npy_free_cache_def NBUCKETS_DIM_def NCACHE_def Let_def)

lemma npy_free_cache_hook_frame [simp]:
  "PyDataMem_eventhook (npy_free_cache p n st) = PyDataMem_eventhook st"
  "PyDataMem_eventhook_user_data (npy_free_cache p n st) = PyDataMem_eventhook_user_data st"
  by (simp_all add: npy_free_cache_def u_npy_free_cache_def Let_def)

lemma fold_free_hook_frame:
  "PyDataMem_eventhook (fold (\<lambda>q. npy_free_cache q n) qs st) = PyDataMem_eventhook st \<and>
   PyDataMem_eventhook_user_data (fold (\<lambda>q. npy_free_cache q n) qs st) =
     PyDataMem_eventhook_user_data st"
  by (induction qs arbitrary: st) simp_all

section \<open>Aligning an address and the hidden header\<close>

lemma and_not_mask_eq_diff:
  "y AND NOT (mask k) = y - take_bit k y" for y :: "64 word"
proof -
  have "y - take_bit k y = y AND NOT (take_bit k y)"
    by (rule disjunctive_diff_eq_and_not) (rule bit_eqI, auto simp: bit_simps)
  also have "\<dots> = y AND NOT (mask k)"
    by (rule bit_eqI) (auto simp: bit_simps)
  finally show ?thesis by simp
qed

lemma unat_align_down:
  fixes y :: "64 word"
  shows "unat (y AND NOT (2 ^ k - 1)) = unat y - unat y mod 2 ^ k"
proof -
  have "unat (take_bit k y) = take_bit k (unat y)" by (rule unsigned_take_bit_eq)
  also have "\<dots> = unat y mod 2 ^ k" by (rule take_bit_eq_mod)
  finally have t: "unat (take_bit k y) = unat y mod 2 ^ k" .
  then have "unat (take_bit k y) \<le> unat y" by simp
  then have le: "take_bit k y \<le> y" by (simp add: word_le_nat_alt)
  have "y AND NOT (2 ^ k - 1) = y - take_bit k y"
    by (simp add: and_not_mask_eq_diff flip: mask_eq_exp_minus_1)
  then show ?thesis using le by (simp add: unat_sub t)
qed


lemma bytes_of_word:
  fixes v :: "64 word"
  shows "ucast (ucast v :: byte) OR
     push_bit 8 (ucast (ucast (drop_bit 8 v) :: byte)) OR
     push_bit 16 (ucast (ucast (drop_bit 16 v) :: byte)) OR
     push_bit 24 (ucast (ucast (drop_bit 24 v) :: byte)) OR
     push_bit 32 (ucast (ucast (drop_bit 32 v) :: byte)) OR
     push_bit 40 (ucast (ucast (drop_bit 40 v) :: byte)) OR
     push_bit 48 (ucast (ucast (drop_bit 48 v) :: byte)) OR
     push_bit 56 (ucast (ucast (drop_bit 56 v) :: byte)) = v" (is "?lhs = v")
proof (rule bit_word_eqI)
  fix n
  assume "n < LENGTH(64)"
  then have "n < 64" by simp
  then consider "n < 8" | "8 \<le> n \<and> n < 16" | "16 \<le> n \<and> n < 24" | "24 \<le> n \<and> n < 32"
    | "32 \<le> n \<and> n < 40" | "40 \<le> n \<and> n < 48" | "48 \<le> n \<and> n < 56" | "56 \<le> n \<and> n < 64"
    by linarith
  then show "bit ?lhs n = bit v n"
    by cases (auto simp add: bit_simps)
qed




lemma load_store_ptr: "load_ptr (store_ptr q v m) q = v"
proof -
  have b: "store_ptr q v m (q + i) = ucast (drop_bit (8 * unat i) v)" if "i < 8" for i
    using that by (simp add: store_ptr_def)
  have "load_ptr (store_ptr q v m) q =
     ucast (ucast v :: byte) OR
     push_bit 8 (ucast (ucast (drop_bit 8 v) :: byte)) OR
     push_bit 16 (ucast (ucast (drop_bit 16 v) :: byte)) OR
     push_bit 24 (ucast (ucast (drop_bit 24 v) :: byte)) OR
     push_bit 32 (ucast (ucast (drop_bit 32 v) :: byte)) OR
     push_bit 40 (ucast (ucast (drop_bit 40 v) :: byte)) OR
     push_bit 48 (ucast (ucast (drop_bit 48 v) :: byte)) OR
     push_bit 56 (ucast (ucast (drop_bit 56 v) :: byte))"
    using b [of 7] b [of 6] b [of 5] b [of 4] b [of 3] b [of 2] b [of 1] b [of 0]
    by (simp add: load_ptr_def)
  then show ?thesis by (simp only: bytes_of_word)
qed

lemma unat_pow2_64:
  assumes "k < 64"
  shows "unat (2 ^ k :: 64 word) = 2 ^ k"
proof -
  have lt: "(2 :: nat) ^ k < 2 ^ 64" using assms by (rule power_strict_increasing) simp
  have "(2 ^ k :: 64 word) = word_of_nat (2 ^ k)" by simp
  then have "unat (2 ^ k :: 64 word) = 2 ^ k mod 2 ^ LENGTH(64)"
    by (simp only: unat_of_nat)
  also have "\<dots> = 2 ^ k" using lt by simp
  finally show ?thesis .
qed

lemma mod_pow2_le: "n mod 2 ^ k \<le> 2 ^ k - 1" for n :: nat
proof -
  have "n mod 2 ^ k < 2 ^ k" by simp
  then show ?thesis by linarith
qed

lemma unat_add_nowrap:
  fixes x y :: "64 word"
  assumes "unat x + unat y < 2 ^ 64"
  shows "unat (x + y) = unat x + unat y"
  using assms unat_add_lem [of x y] by simp

lemma unat_add_header:
  fixes x m :: "64 word"
  assumes "unat x + 8 + unat m < 2 ^ 64"
  shows "unat (x + 8 + m) = unat x + 8 + unat m"
proof -
  have "unat x + unat (8 :: 64 word) < 2 ^ 64" using assms by simp
  then have x8: "unat (x + 8) = unat x + 8" by (simp only: unat_add_nowrap) simp
  have "unat (x + 8) + unat m < 2 ^ 64" using assms by (simp only: x8)
  then have "unat (x + 8 + m) = unat (x + 8) + unat m" by (rule unat_add_nowrap)
  then show ?thesis by (simp only: x8)
qed

lemma aligned_down:
  assumes "is_pow2 a"
  shows "aligned_to a (y AND NOT (a - 1))"
proof -
  from assms obtain k where k: "k < 64" "a = 2 ^ k" by (auto simp: is_pow2_def)
  have "unat (y AND NOT (2 ^ k - 1)) mod 2 ^ k = 0"
    by (simp add: unat_align_down minus_mod_eq_mult_div)
  then show ?thesis using k by (simp add: aligned_to_def unat_pow2_64)
qed

lemma align_pointer_aligned:
  assumes "align_ok st"
  shows "aligned_to (datamem_align st) (fst (align_pointer p st))"
  using assms by (simp add: fst_align_pointer align_ok_def aligned_down)

lemma get_original_pointer_align_pointer:
  "get_original_pointer (fst (align_pointer p st)) (snd (align_pointer p st)) = p"
  by (simp add: align_pointer_def get_original_pointer_def Let_def load_store_ptr)

lemma align_pointer_bounds:
  assumes ok: "align_ok st"
    and fit: "unat base + 8 + unat (datamem_align st - 1) < 2 ^ 64"
  shows "unat base + 8 \<le> unat (fst (align_pointer base st))"
    and "unat (fst (align_pointer base st)) \<le> unat base + 8 + unat (datamem_align st - 1)"
proof -
  from ok obtain k where k: "k < 64" "datamem_align st = 2 ^ k"
    and m: "datamem_align_mask st = 2 ^ k - 1"
    by (auto simp: align_ok_def is_pow2_def)
  define Y where "Y = unat (base + 8 + (2 ^ k - 1 :: 64 word))"
  define M where "M = (2 :: nat) ^ k - 1"
  have um: "unat (2 ^ k - 1 :: 64 word) = M"
    using k(1) by (simp add: M_def unat_minus_one unat_pow2_64)
  have "unat base + 8 + unat (2 ^ k - 1 :: 64 word) < 2 ^ 64"
    using fit by (simp only: k(2))
  then have "Y = unat base + 8 + unat (2 ^ k - 1 :: 64 word)"
    unfolding Y_def by (rule unat_add_header)
  then have uy: "Y = unat base + 8 + M"
    by (simp only: um)
  have user: "unat (fst (align_pointer base st)) = Y - Y mod 2 ^ k"
    unfolding Y_def by (simp only: fst_align_pointer m unat_align_down)
  have r: "Y mod 2 ^ k \<le> M"
    unfolding M_def by (rule mod_pow2_le)
  show "unat base + 8 \<le> unat (fst (align_pointer base st))"
    using r uy unfolding user by linarith
  have "unat (datamem_align st - 1) = M"
    by (simp only: k(2) um)
  then show "unat (fst (align_pointer base st)) \<le> unat base + 8 + unat (datamem_align st - 1)"
    using uy unfolding user by linarith
qed

text \<open>
  C10.  Let the alignment \<open>a\<close> be a power of two from 16 on with its mask \<open>a - 1\<close>, let
  \<open>size + 8 + (a - 1)\<close> not overflow, and let \<open>base\<close> be a block of
  \<^verbatim>\<open>get_aligned_size(size)\<close> bytes, that is, \<open>base + get_aligned_size(size)\<close> does not
  leave the address space (no object that \<^verbatim>\<open>malloc\<close> returns does: the address one
  past its end is a valid address above it).  Then the address \<open>user\<close> that
  \<^verbatim>\<open>align_pointer\<close> computes satisfies \<open>base + 8 \<le> user\<close> and
  \<open>user + size \<le> base + get_aligned_size(size)\<close>; the header word, the 8 bytes from
  \<open>user - 8\<close> up to \<open>user\<close>, and the user region therefore lie in the block; \<open>user\<close> is
  a multiple of \<open>a\<close>; and \<^verbatim>\<open>get_original_pointer\<close> reads \<open>base\<close> back.
\<close>

theorem aligned_layout:
  assumes "align_ok st"
    and "unat sz + 8 + unat (datamem_align st - 1) < 2 ^ 64"
    and "unat base + unat (get_aligned_size sz st) < 2 ^ 64"
    and "align_pointer base st = (user, st')"
  shows "unat base + 8 \<le> unat user \<and>
         unat user + unat sz \<le> unat base + unat (get_aligned_size sz st) \<and>
         unat (user - 8) + 8 = unat user \<and>
         aligned_to (datamem_align st) user \<and>
         get_original_pointer user st' = base"
proof -
  have m: "datamem_align_mask st = datamem_align st - 1"
    using assms(1) by (simp add: align_ok_def)
  have gs: "unat (get_aligned_size sz st) = unat sz + 8 + unat (datamem_align st - 1)"
    unfolding get_aligned_size_def m using assms(2) by (rule unat_add_header)
  have fit: "unat base + 8 + unat (datamem_align st - 1) < 2 ^ 64"
    using assms(3) by (simp add: gs)
  have user: "user = fst (align_pointer base st)" and st': "st' = snd (align_pointer base st)"
    using assms(4) by simp_all
  note b = align_pointer_bounds [OF assms(1) fit]
  have lo: "unat base + 8 \<le> unat user" using b(1) by (simp add: user)
  have hi: "unat user + unat sz \<le> unat base + unat (get_aligned_size sz st)"
    using b(2) by (simp add: user gs)
  have "8 \<le> unat user" using lo by simp
  then have "(8 :: 64 word) \<le> user" by (simp add: word_le_nat_alt)
  then have "unat (user - 8) = unat user - 8" by (simp add: unat_sub)
  then have hdr: "unat (user - 8) + 8 = unat user" using \<open>8 \<le> unat user\<close> by simp
  have al: "aligned_to (datamem_align st) user"
    using assms(1) by (simp add: user align_pointer_aligned)
  have orig: "get_original_pointer user st' = base"
    by (simp add: user st' get_original_pointer_align_pointer)
  from lo hi hdr al orig show ?thesis by blast
qed

lemma align_ok_init: "align_ok (init_state m answers)"
  by (simp add: align_ok_def init_state_def MIN_ALIGN_def pow2_16)

theorem aligned_layout_witness:
  "align_ok (init_state (\<lambda>_. 0) []) \<and>
   fst (align_pointer 0x1000 (init_state (\<lambda>_. 0) [])) = 0x1010 \<and>
   get_aligned_size 100 (init_state (\<lambda>_. 0) []) = 123 \<and>
   aligned_to 16 0x1010 \<and>
   get_original_pointer 0x1010 (snd (align_pointer 0x1000 (init_state (\<lambda>_. 0) []))) = 0x1000"
proof -
  let ?st = "init_state (\<lambda>_. 0) []"
  have ok: "align_ok ?st" by (rule align_ok_init)
  have a: "datamem_align ?st = 16" "datamem_align_mask ?st = 15"
    by (simp_all add: init_state_def MIN_ALIGN_def)
  have gs: "get_aligned_size 100 ?st = 123" by (simp add: get_aligned_size_def a)
  have h1: "unat (100 :: 64 word) + 8 + unat (datamem_align ?st - 1) < 2 ^ 64" by (simp add: a)
  have h2: "unat (0x1000 :: 64 word) + unat (get_aligned_size 100 ?st) < 2 ^ 64" by (simp add: gs)
  have u: "fst (align_pointer 0x1000 ?st) = 0x1010" by (simp add: fst_align_pointer a)
  have h3: "align_pointer 0x1000 ?st = (0x1010, snd (align_pointer 0x1000 ?st))"
    using u by (metis prod.collapse)
  from aligned_layout [OF ok h1 h2 h3] ok u gs a show ?thesis by simp
qed

section \<open>Changing the alignment\<close>

text \<open>What a purge leaves alone, for any component \<open>g\<close> of the state.\<close>

lemma fold_dealloc_keeps:
  assumes "\<And>q s. g (dealloc q s) = g s"
  shows "g (fold (\<lambda>i s. dealloc (f s i) s) idxs st) = g st"
  using assms by (induction idxs arbitrary: st) simp_all

lemma clear_bucket_keeps:
  assumes "\<And>q s. g (dealloc q s) = g s" and "\<And>c s. g (set_cache cache c s) = g s"
  shows "g (clear_bucket cache dealloc nelem st) = g st"
  by (simp add: clear_bucket_def Let_def assms(2) fold_dealloc_keeps [of g dealloc, OF assms(1)])

lemma u_npy_clear_cache_keeps:
  assumes "\<And>q s. g (dealloc q s) = g s" and "\<And>c s. g (set_cache cache c s) = g s"
  shows "g (u_npy_clear_cache msz cache dealloc st) = g st"
proof -
  have "g (fold (clear_bucket cache dealloc) idxs st) = g st" for idxs
    by (induction idxs arbitrary: st) (simp_all add: clear_bucket_keeps assms)
  then show ?thesis by (simp add: u_npy_clear_cache_def)
qed

lemma clear_data_frame [simp]:
  "dimcache (u_npy_clear_cache msz DataCache PyDataMem_FREE st) = dimcache st"
  "sys_next (u_npy_clear_cache msz DataCache PyDataMem_FREE st) = sys_next st"
  "mem (u_npy_clear_cache msz DataCache PyDataMem_FREE st) = mem st"
  "PyDataMem_eventhook (u_npy_clear_cache msz DataCache PyDataMem_FREE st) = PyDataMem_eventhook st"
  "PyDataMem_eventhook_user_data (u_npy_clear_cache msz DataCache PyDataMem_FREE st) =
     PyDataMem_eventhook_user_data st"
  "datamem_align (u_npy_clear_cache msz DataCache PyDataMem_FREE st) = datamem_align st"
  "datamem_align_mask (u_npy_clear_cache msz DataCache PyDataMem_FREE st) = datamem_align_mask st"
  by (rule u_npy_clear_cache_keeps; simp)+

text \<open>What a purge does to the table: every bucket's count is 0, the slots stay.\<close>

lemma clear_bucket_cache:
  assumes "\<And>q s. get_cache cache (dealloc q s) = get_cache cache s"
  shows "get_cache cache (clear_bucket cache dealloc i st) =
           (get_cache cache st)[i := (get_cache cache st ! i)\<lparr>available := 0\<rparr>]"
proof -
  have "get_cache cache (fold (\<lambda>j s. dealloc (ptrs (get_cache cache s ! i) ! j) s) idxs st) =
          get_cache cache st" for idxs
    using assms by (rule fold_dealloc_keeps)
  then show ?thesis by (cases cache) (simp_all add: clear_bucket_def Let_def)
qed

lemma fold_clear_bucket_cache:
  assumes "\<And>q s. get_cache cache (dealloc q s) = get_cache cache s"
  shows "length (get_cache cache (fold (clear_bucket cache dealloc) [0 ..< k] st)) =
           length (get_cache cache st) \<and>
         (\<forall>i < length (get_cache cache st).
            get_cache cache (fold (clear_bucket cache dealloc) [0 ..< k] st) ! i =
              (if i < k then (get_cache cache st ! i)\<lparr>available := 0\<rparr>
               else get_cache cache st ! i))"
proof (induction k)
  case 0
  then show ?case by simp
next
  case (Suc k)
  then show ?case
    by (auto simp: clear_bucket_cache [OF assms] nth_list_update less_Suc_eq)
qed

lemma clear_data_cache:
  "length (datacache (u_npy_clear_cache msz DataCache PyDataMem_FREE st)) = length (datacache st)"
  "i < length (datacache st) \<Longrightarrow>
     datacache (u_npy_clear_cache msz DataCache PyDataMem_FREE st) ! i =
       (if i < unat msz then (datacache st ! i)\<lparr>available := 0\<rparr> else datacache st ! i)"
  using fold_clear_bucket_cache [of DataCache PyDataMem_FREE "unat msz" st]
  by (simp_all add: u_npy_clear_cache_def)

text \<open>The two outcomes of an accepted \<^verbatim>\<open>npy_datamem_set_align\<close>.\<close>

lemma set_align_accepts:
  assumes "is_pow2 a" "16 \<le> a"
  shows "npy_datamem_set_align a st =
           (0, (if datamem_align st < a
                then u_npy_clear_cache NBUCKETS DataCache PyDataMem_FREE st
                else st)\<lparr>datamem_align := a, datamem_align_mask := a - 1\<rparr>)"
proof -
  have "a \<noteq> 0" using assms(2) by auto
  then have "(a XOR (a - 1)) = (a OR (a - 1))"
    using assms(1) by (simp add: power_of_two_check)
  moreover have "\<not> a < 16" using assms(2) by simp
  ultimately show ?thesis
    by (simp add: npy_datamem_set_align_def MIN_ALIGN_def Let_def)
qed

subsection \<open>The purge\<close>

lemma PyDataMem_FREE_datacache_update:
  "PyDataMem_FREE q (st\<lparr>datacache := d\<rparr>) = (PyDataMem_FREE q st)\<lparr>datacache := d\<rparr>"
  by (simp add: PyDataMem_FREE_def call_eventhook_def sys_free_def get_original_pointer_def)

lemma fold_FREE_datacache_update:
  "fold PyDataMem_FREE qs (st\<lparr>datacache := d\<rparr>) = (fold PyDataMem_FREE qs st)\<lparr>datacache := d\<rparr>"
  by (induction qs arbitrary: st) (simp_all add: PyDataMem_FREE_datacache_update)

lemma fold_FREE_datacache [simp]: "datacache (fold PyDataMem_FREE qs st) = datacache st"
  by (induction qs arbitrary: st) simp_all

lemma fold_FREE_dimcache [simp]: "dimcache (fold PyDataMem_FREE qs st) = dimcache st"
  by (induction qs arbitrary: st) simp_all

lemma inner_loop_fold:
  "fold (\<lambda>i s. PyDataMem_FREE (ptrs (datacache s ! n) ! i) s) idxs st =
     fold PyDataMem_FREE (map ((!) (ptrs (datacache st ! n))) idxs) st"
  by (induction idxs arbitrary: st) simp_all

lemma clear_bucket_data:
  "clear_bucket DataCache PyDataMem_FREE n st =
     (fold PyDataMem_FREE
        (map ((!) (ptrs (datacache st ! n))) [0 ..< unat (available (datacache st ! n))]) st)
       \<lparr>datacache := (datacache st)[n := (datacache st ! n)\<lparr>available := 0\<rparr>]\<rparr>"
  by (simp add: clear_bucket_def Let_def inner_loop_fold)

lemma reset_prefix_update:
  assumes "k < length c"
  shows "(map f (take k c) @ drop k c)[k := f (c ! k)] = map f (take (Suc k) c) @ drop (Suc k) c"
  using assms
  by (simp add: take_Suc_conv_app_nth list_update_append Cons_nth_drop_Suc [symmetric])

lemma purge_prefix:
  assumes "k \<le> length (datacache st)"
  shows "fold (clear_bucket DataCache PyDataMem_FREE) [0 ..< k] st =
           (fold PyDataMem_FREE (cached_blocks (take k (datacache st))) st)
             \<lparr>datacache := map (\<lambda>b. b\<lparr>available := 0\<rparr>) (take k (datacache st)) @
                            drop k (datacache st)\<rparr>"
  using assms
proof (induction k)
  case 0
  then show ?case by (simp add: cached_blocks_def)
next
  case (Suc k)
  let ?c = "datacache st"
  let ?r = "\<lambda>b. b\<lparr>available := 0 :: 64 word\<rparr>"
  let ?d = "map ?r (take k ?c) @ drop k ?c"
  let ?s = "fold PyDataMem_FREE (cached_blocks (take k ?c)) st"
  have k: "k < length ?c" using Suc.prems by simp
  have nth: "?d ! k = ?c ! k" using k by (simp add: nth_append)
  have IH: "fold (clear_bucket DataCache PyDataMem_FREE) [0 ..< k] st = ?s\<lparr>datacache := ?d\<rparr>"
    using Suc.IH k by simp
  have blocks: "cached_blocks (take (Suc k) ?c) =
      cached_blocks (take k ?c) @ map ((!) (ptrs (?c ! k))) [0 ..< unat (available (?c ! k))]"
    using k by (simp add: cached_blocks_def take_Suc_conv_app_nth)
  have "fold (clear_bucket DataCache PyDataMem_FREE) [0 ..< Suc k] st =
          clear_bucket DataCache PyDataMem_FREE k (?s\<lparr>datacache := ?d\<rparr>)"
    by (simp add: IH)
  also have "\<dots> =
      (fold PyDataMem_FREE (map ((!) (ptrs (?c ! k))) [0 ..< unat (available (?c ! k))]) ?s)
        \<lparr>datacache := ?d[k := ?r (?c ! k)]\<rparr>"
    by (simp add: clear_bucket_data nth fold_FREE_datacache_update)
  also have "\<dots> = (fold PyDataMem_FREE (cached_blocks (take (Suc k) ?c)) st)
        \<lparr>datacache := map ?r (take (Suc k) ?c) @ drop (Suc k) ?c\<rparr>"
    using k by (simp only: blocks fold_append comp_apply reset_prefix_update)
  finally show ?case .
qed

text \<open>
  The purge of the data cache: every cached block, bucket by bucket and slot by slot,
  goes to \<^verbatim>\<open>PyDataMem_FREE\<close>, and every bucket's count becomes 0.
\<close>

lemma purge_data_cache:
  assumes "length (datacache st) = 1024"
  shows "u_npy_clear_cache NBUCKETS DataCache PyDataMem_FREE st =
           (fold PyDataMem_FREE (cached_blocks (datacache st)) st)
             \<lparr>datacache := map (\<lambda>b. b\<lparr>available := 0\<rparr>) (datacache st)\<rparr>"
  using purge_prefix [of 1024 st] assms
  by (simp add: u_npy_clear_cache_def NBUCKETS_def)

text \<open>
  An accepted \<^verbatim>\<open>npy_datamem_set_align\<close>: a greater value purges the data cache and leaves
  the dimension cache alone; any other value leaves both alone and calls nothing.
\<close>

lemma set_align_purge:
  assumes "is_pow2 a" "16 \<le> a" "length (datacache st) = 1024"
  shows "datamem_align st < a \<Longrightarrow>
           snd (npy_datamem_set_align a st) =
             (fold PyDataMem_FREE (cached_blocks (datacache st)) st)
               \<lparr>datacache := map (\<lambda>b. b\<lparr>available := 0\<rparr>) (datacache st),
                datamem_align := a, datamem_align_mask := a - 1\<rparr>"
    and "datamem_align st < a \<Longrightarrow>
           dimcache (snd (npy_datamem_set_align a st)) = dimcache st"
    and "\<not> datamem_align st < a \<Longrightarrow>
           snd (npy_datamem_set_align a st) = st\<lparr>datamem_align := a, datamem_align_mask := a - 1\<rparr>"
  using assms by (simp_all add: set_align_accepts purge_data_cache)

section \<open>The alignment of returned addresses\<close>

lemma not_aligned_32: "\<not> aligned_to 32 0x1010"
  by (simp add: aligned_to_def)

text \<open>
  The claim C4 as stated fails for the dimension allocator: with the alignment set to
  32 and the C library answering \<open>0x1010\<close>, \<^verbatim>\<open>npy_alloc_cache_dim\<close> returns \<open>0x1010\<close>,
  which is not a multiple of 32.
\<close>

theorem dims_alignment_counterexample:
  "(let (rc, st1) = npy_datamem_set_align 32 (init_state (\<lambda>_. 0) [0x1010]);
        (d, st2) = npy_alloc_cache_dim 4 st1
    in rc = 0 \<and> npy_datamem_get_align st1 = 32 \<and> is_pow2 32 \<and> d = 0x1010 \<and>
       \<not> aligned_to 32 d)"
proof -
  let ?st0 = "init_state (\<lambda>_. 0) [0x1010]"
  have a0: "datamem_align ?st0 = 16" by (simp add: init_state_def MIN_ALIGN_def)
  let ?st1 = "(u_npy_clear_cache NBUCKETS DataCache PyDataMem_FREE ?st0)
                \<lparr>datamem_align := 32, datamem_align_mask := 32 - 1\<rparr>"
  have sa: "npy_datamem_set_align 32 ?st0 = (0, ?st1)"
    using set_align_accepts [OF pow2_32, of ?st0] a0 by simp
  have d: "dimcache ?st0 = replicate 16 empty_bucket" "sys_next ?st0 = [0x1010]"
    by (simp_all add: init_state_def)
  have "fst (npy_alloc_cache_dim 4 ?st1) = 0x1010"
    by (simp add: npy_alloc_cache_dim_def u_npy_alloc_cache_def NBUCKETS_DIM_def d
        empty_bucket_def PyArray_malloc_def sys_malloc_def)
  then show ?thesis
    by (simp add: sa split_def npy_datamem_get_align_def not_aligned_32 pow2_32)
qed

lemma align_ok_frame:
  "datamem_align st' = datamem_align st \<Longrightarrow> datamem_align_mask st' = datamem_align_mask st \<Longrightarrow>
   align_ok st' = align_ok st"
  by (simp add: align_ok_def)

lemma PyDataMem_NEW_aligned:
  assumes "align_ok st" "fst (PyDataMem_NEW n st) \<noteq> 0"
  shows "aligned_to (datamem_align st) (fst (PyDataMem_NEW n st))"
proof -
  let ?m = "sys_malloc (get_aligned_size n st) st"
  have ok1: "align_ok (snd ?m)" using assms(1) by (simp add: align_ok_frame [of "snd ?m" st])
  have r: "fst ?m \<noteq> 0" using assms(2) by (auto simp: PyDataMem_NEW_def Let_def split_def)
  then have "fst (PyDataMem_NEW n st) = fst (align_pointer (fst ?m) (snd ?m))"
    by (simp add: PyDataMem_NEW_def Let_def split_def)
  then show ?thesis using align_pointer_aligned [OF ok1, of "fst ?m"] by simp
qed

lemma npy_alloc_cache_dim_hit:
  assumes "(if n < 2 then 2 else n) < 16"
    and "0 < available (dimcache st ! unat (if n < 2 then 2 else n))"
  shows "fst (npy_alloc_cache_dim n st) =
           ptrs (dimcache st ! unat (if n < 2 then 2 else n)) !
             unat (available (dimcache st ! unat (if n < 2 then 2 else n)) - 1)"
  using assms
  by (simp add: npy_alloc_cache_dim_def u_npy_alloc_cache_def NBUCKETS_DIM_def Let_def)

lemma npy_alloc_cache_dim_miss:
  assumes "\<not> ((if n < 2 then 2 else n) < 16 \<and>
              0 < available (dimcache st ! unat (if n < 2 then 2 else n)))"
  shows "npy_alloc_cache_dim n st = sys_malloc ((if n < 2 then 2 else n) * 8) st"
  using assms
  by (auto simp add: npy_alloc_cache_dim_def u_npy_alloc_cache_def NBUCKETS_DIM_def Let_def
      PyArray_malloc_def)

lemma fst_sys_malloc: "fst (sys_malloc n st) = (case sys_next st of [] \<Rightarrow> 0 | r # rs \<Rightarrow> r)"
  by (simp add: sys_malloc_def split: list.splits)

text \<open>
  C4, amended.  For an alignment \<open>a\<close> that is a power of two from 16 on: every non-null
  address that \<^verbatim>\<open>PyDataMem_NEW\<close> returns, and so every non-null address that
  \<^verbatim>\<open>npy_alloc_cache\<close> returns on a cache miss, is a multiple of \<open>a\<close>.  On a cache hit
  \<^verbatim>\<open>npy_alloc_cache\<close> returns the cached address on top of the bucket as it is.
  \<^verbatim>\<open>npy_alloc_cache_dim\<close> returns the cached address on top of the bucket or the C
  library's answer as it is: it aligns nothing.
\<close>

theorem allocation_alignment:
  fixes n :: "64 word"
  assumes "align_ok st"
  shows "(fst (PyDataMem_NEW n st) \<noteq> 0 \<longrightarrow>
            aligned_to (datamem_align st) (fst (PyDataMem_NEW n st))) \<and>
         (\<not> (n < 1024 \<and> 0 < available (datacache st ! unat n)) \<and>
          fst (npy_alloc_cache n st) \<noteq> 0 \<longrightarrow>
            aligned_to (datamem_align st) (fst (npy_alloc_cache n st))) \<and>
         (n < 1024 \<and> 0 < available (datacache st ! unat n) \<longrightarrow>
            fst (npy_alloc_cache n st) =
              ptrs (datacache st ! unat n) ! unat (available (datacache st ! unat n) - 1)) \<and>
         ((if n < 2 then 2 else n) < 16 \<and>
          0 < available (dimcache st ! unat (if n < 2 then 2 else n)) \<longrightarrow>
            fst (npy_alloc_cache_dim n st) =
              ptrs (dimcache st ! unat (if n < 2 then 2 else n)) !
                unat (available (dimcache st ! unat (if n < 2 then 2 else n)) - 1)) \<and>
         (\<not> ((if n < 2 then 2 else n) < 16 \<and>
             0 < available (dimcache st ! unat (if n < 2 then 2 else n))) \<longrightarrow>
            fst (npy_alloc_cache_dim n st) = (case sys_next st of [] \<Rightarrow> 0 | r # rs \<Rightarrow> r))"
proof -
  have new: "aligned_to (datamem_align st) (fst (PyDataMem_NEW n st))"
    if "fst (PyDataMem_NEW n st) \<noteq> 0"
    using assms that by (rule PyDataMem_NEW_aligned)
  have miss: "aligned_to (datamem_align st) (fst (npy_alloc_cache n st))"
    if "\<not> (n < 1024 \<and> 0 < available (datacache st ! unat n))"
      and "fst (npy_alloc_cache n st) \<noteq> 0"
    using that new by (simp add: npy_alloc_cache_miss)
  have hit: "fst (npy_alloc_cache n st) =
              ptrs (datacache st ! unat n) ! unat (available (datacache st ! unat n) - 1)"
    if "n < 1024" "0 < available (datacache st ! unat n)"
    using that by (simp add: npy_alloc_cache_hit)
  have dmiss: "fst (npy_alloc_cache_dim n st) = (case sys_next st of [] \<Rightarrow> 0 | r # rs \<Rightarrow> r)"
    if "\<not> ((if n < 2 then 2 else n) < 16 \<and>
             0 < available (dimcache st ! unat (if n < 2 then 2 else n)))"
    using npy_alloc_cache_dim_miss [OF that] by (simp add: fst_sys_malloc)
  show ?thesis
    using new miss hit dmiss npy_alloc_cache_dim_hit [of n st] by blast
qed

lemma npy_free_cache_align_frame [simp]:
  "datamem_align (npy_free_cache p n st) = datamem_align st"
  "datamem_align_mask (npy_free_cache p n st) = datamem_align_mask st"
  by (simp_all add: npy_free_cache_def u_npy_free_cache_def Let_def)

lemma align_ok_cached_state: "align_ok cached_state"
proof -
  have "align_ok (init_state (\<lambda>_. 0) [0x1000])" by (rule align_ok_init)
  then have h: "align_ok hooked_state"
    by (simp add: hooked_state_def PyDataMem_SetEventHook_def align_ok_def)
  have m: "missed_state = snd (PyDataMem_NEW 500 hooked_state)"
    using hooked_state_facts(5) by (simp add: missed_state_def npy_alloc_cache_miss)
  have "align_ok missed_state"
    unfolding m using h by (simp add: align_ok_def)
  then show ?thesis
    by (simp add: cached_state_def align_ok_def)
qed

theorem allocation_alignment_witness:
  "align_ok (init_state (\<lambda>_. 0) [0x1000]) \<and>
   fst (PyDataMem_NEW 100 (init_state (\<lambda>_. 0) [0x1000])) = 0x1010 \<and>
   fst (npy_alloc_cache 100 (init_state (\<lambda>_. 0) [0x1000])) = 0x1010 \<and>
   aligned_to 16 0x1010 \<and>
   align_ok cached_state \<and> 0 < available (datacache cached_state ! 500) \<and>
   fst (npy_alloc_cache 500 cached_state) = 0x1010 \<and>
   fst (npy_alloc_cache_dim 1 (init_state (\<lambda>_. 0) [0x1000])) = 0x1000 \<and>
   0 < available (dimcache full_dim_state ! 3) \<and>
   fst (npy_alloc_cache_dim 3 full_dim_state) = 0x70"
proof -
  let ?st = "init_state (\<lambda>_. 0) [0x1000]"
  have ok: "align_ok ?st" by (rule align_ok_init)
  have a: "datamem_align ?st = 16" by (simp add: init_state_def MIN_ALIGN_def)
  have e: "available (datacache ?st ! 100) = 0" "available (dimcache ?st ! 2) = 0"
    "sys_next ?st = [0x1000]"
    by (simp_all add: init_state_def empty_bucket_def)
  have p: "fst (PyDataMem_NEW 100 ?st) = 0x1010"
    by (simp add: init_state_def PyDataMem_NEW_def sys_malloc_def get_aligned_size_def
        align_pointer_def MIN_ALIGN_def Let_def)
  have q: "fst (npy_alloc_cache 100 ?st) = 0x1010"
    using e by (simp add: npy_alloc_cache_miss p)
  have c1: "available (datacache cached_state ! 500) = 1" by (rule cached_state_facts)
  have c2: "ptrs (datacache cached_state ! 500) ! 0 = 0x1010"
    using hooked_state_facts(4)
    by (simp add: cached_state_def npy_free_cache_push missed_state_facts)
      (simp add: missed_state_def npy_alloc_cache_miss hooked_state_facts
        hooked_state_def PyDataMem_SetEventHook_def init_state_def empty_bucket_def)
  have f: "available (dimcache full_dim_state ! 3) = 7"
    "ptrs (dimcache full_dim_state ! 3) ! 6 = 0x70"
    by (simp_all add: full_dim_state_def init_state_def)
  have okf: "align_ok full_dim_state"
    using align_ok_init [of "\<lambda>_. 0" "[]"] by (simp add: full_dim_state_def align_ok_def)
  show ?thesis
    using allocation_alignment [OF ok, of 100] allocation_alignment [OF ok, of 1]
      allocation_alignment [OF align_ok_cached_state, of 500]
      allocation_alignment [OF okf, of 3]
      ok a e p q c1 c2 f align_ok_cached_state
    by simp
qed

section \<open>What holds of the resize and of the zeroed allocation\<close>

lemma fst_sys_realloc:
  "fst (sys_realloc p n st) = (case sys_next st of [] \<Rightarrow> 0 | r # rs \<Rightarrow> r)"
  by (simp add: sys_realloc_def split: list.splits)

text \<open>A refused resize returns the null pointer; the block stays live and the memory as it was.\<close>

lemma PyDataMem_RENEW_refused:
  assumes "(case sys_next st of [] \<Rightarrow> 0 | r # rs \<Rightarrow> r) = 0"
  shows "fst (PyDataMem_RENEW p n st) = 0"
    and "mem (snd (PyDataMem_RENEW p n st)) = mem st"
    and "live (snd (PyDataMem_RENEW p n st)) = live st"
  using assms
  by (simp_all add: PyDataMem_RENEW_def Let_def split_def fst_sys_realloc)
     (simp_all add: sys_realloc_def split: list.splits)

text \<open>A resize in place returns the user address it was given and leaves the memory as it was.\<close>

lemma PyDataMem_RENEW_in_place:
  assumes "sys_next st = r # rs" "r \<noteq> 0" "r = get_original_pointer p st"
  shows "fst (PyDataMem_RENEW p n st) = p"
    and "mem (snd (PyDataMem_RENEW p n st)) = mem st"
  using assms
  by (simp_all add: PyDataMem_RENEW_def Let_def split_def fst_sys_realloc)
     (simp_all add: sys_realloc_def)

text \<open>A resize that moves the block returns an address aligned to the alignment in force.\<close>

lemma PyDataMem_RENEW_moved:
  assumes "align_ok st" "sys_next st = r # rs" "r \<noteq> 0" "r \<noteq> get_original_pointer p st"
  shows "aligned_to (datamem_align st) (fst (PyDataMem_RENEW p n st))"
proof -
  let ?s = "sys_realloc (get_original_pointer p st) (get_aligned_size n st) st"
  have ok: "align_ok (snd ?s)" using assms(1) by (simp add: align_ok_def)
  have "fst (PyDataMem_RENEW p n st) = fst (align_pointer r (snd ?s))"
    using assms(2-4) by (simp add: PyDataMem_RENEW_def Let_def split_def fst_sys_realloc)
  then show ?thesis using align_pointer_aligned [OF ok, of r] by simp
qed

text \<open>An overflowing product: the null pointer, and no call of the C library.\<close>

lemma PyDataMem_NEW_ZEROED_overflow:
  assumes "2 ^ 64 \<le> unat k * unat e"
  shows "fst (PyDataMem_NEW_ZEROED k e st) = 0"
    and "sys_calls (snd (PyDataMem_NEW_ZEROED k e st)) = sys_calls st"
    and "live (snd (PyDataMem_NEW_ZEROED k e st)) = live st"
    and "mem (snd (PyDataMem_NEW_ZEROED k e st)) = mem st"
  using assms
  by (simp_all add: PyDataMem_NEW_ZEROED_def npy_mul_with_overflow_intp_def Let_def)

text \<open>The cache path of \<^verbatim>\<open>npy_alloc_cache_zero\<close> zero-fills what it returns.\<close>

lemma npy_alloc_cache_zero_filled:
  assumes "n < 1024" "fst (npy_alloc_cache_zero n st) \<noteq> 0" "i < n"
  shows "mem (snd (npy_alloc_cache_zero n st)) (fst (npy_alloc_cache_zero n st) + i) = 0"
  using assms
  by (simp add: npy_alloc_cache_zero_def NBUCKETS_def Let_def split_def memset0_def)


text \<open>
  Where neither the product nor \<^verbatim>\<open>get_aligned_size\<close> overflows and the block that
  \<^verbatim>\<open>calloc\<close> returns lies in the address space, the user region is zero-filled.
\<close>

lemma PyDataMem_NEW_ZEROED_zero_filled:
  assumes ok: "align_ok st"
    and nov: "unat k * unat e < 2 ^ 64"
    and fit: "unat (k * e) + 8 + unat (datamem_align st - 1) < 2 ^ 64"
    and ans: "sys_next st = r # rs" "r \<noteq> 0"
    and blk: "unat r + unat (get_aligned_size (k * e) st) < 2 ^ 64"
    and i: "i < k * e"
  shows "mem (snd (PyDataMem_NEW_ZEROED k e st)) (fst (PyDataMem_NEW_ZEROED k e st) + i) = 0"
proof -
  let ?g = "get_aligned_size (k * e) st"
  let ?c = "sys_calloc ?g 1 st"
  have m: "datamem_align_mask st = datamem_align st - 1" using ok by (simp add: align_ok_def)
  have gs: "unat ?g = unat (k * e) + 8 + unat (datamem_align st - 1)"
    unfolding get_aligned_size_def m using fit by (rule unat_add_header)
  have "unat ?g < 2 ^ 64" using unsigned_less [of ?g] by simp
  then have c: "fst ?c = r" "mem (snd ?c) = memset0 r ?g (mem st)"
    using ans by (simp_all add: sys_calloc_def)
  have ok1: "align_ok (snd ?c)" using ok by (simp add: align_ok_def)
  define user where "user = fst (align_pointer r (snd ?c))"
  have res: "fst (PyDataMem_NEW_ZEROED k e st) = user"
    using nov ans(2) c(1)
    by (simp add: PyDataMem_NEW_ZEROED_def npy_mul_with_overflow_intp_def Let_def split_def user_def)
  have mem: "mem (snd (PyDataMem_NEW_ZEROED k e st)) = store_ptr (user - 8) r (memset0 r ?g (mem st))"
    using nov ans(2) c
    by (simp add: PyDataMem_NEW_ZEROED_def npy_mul_with_overflow_intp_def Let_def split_def user_def)
      (simp add: align_pointer_def Let_def)
  have fit1: "unat r + 8 + unat (datamem_align (snd ?c) - 1) < 2 ^ 64"
    using blk by (simp add: gs)
  note b = align_pointer_bounds [OF ok1 fit1, folded user_def]
  have lo: "unat r + 8 \<le> unat user" using b(1) .
  have hi: "unat user \<le> unat r + 8 + unat (datamem_align st - 1)" using b(2) by simp
  have ui: "unat i < unat (k * e)" using i by (simp add: word_less_nat_alt)
  have "unat i + unat (8 :: 64 word) < 2 ^ 64" using ui fit by simp
  then have "unat (i + 8) = unat i + unat (8 :: 64 word)" by (rule unat_add_nowrap)
  then have "\<not> i + 8 < 8" by (simp add: word_less_nat_alt)
  moreover have "user + i - (user - 8) = i + 8" by simp
  ultimately have hdr: "\<not> user + i - (user - 8) < 8" by simp
  have "r \<le> user" using lo by (simp add: word_le_nat_alt)
  then have off: "unat (user - r) = unat user - unat r" by (rule unat_sub)
  have "unat (user - r) + unat i < 2 ^ 64" using off hi ui fit lo by linarith
  then have "unat (user - r + i) = unat (user - r) + unat i" by (rule unat_add_nowrap)
  then have "unat (user - r + i) < unat ?g" using off hi ui gs lo by linarith
  then have lt: "user - r + i < ?g" by (simp add: word_less_nat_alt)
  have eq: "user + i - r = user - r + i" by simp
  have inblk: "user + i - r < ?g" unfolding eq by (rule lt)
  show ?thesis
    using hdr inblk by (simp add: res mem store_ptr_def memset0_def)
qed

section \<open>Inputs at which the code departs from the specification\<close>

text \<open>
  C8 at a failing input.  The purge at the raise empties the cache, but the block that
  was in use at that moment enters the cache when it is released: the allocation after
  the raise returns \<open>0x1010\<close>, aligned to the old value 16 only.
\<close>

theorem stale_alignment_after_raise:
  "raise_scenario = (0x1010, 0, 32, 0x1010) \<and> \<not> aligned_to 32 0x1010"
proof -
  define st0 where "st0 = init_state (\<lambda>_. 0) [0x1000]"
  define st1 where "st1 = snd (npy_alloc_cache 100 st0)"
  define st2 where "st2 = snd (npy_datamem_set_align 32 st1)"
  define st3 where "st3 = npy_free_cache 0x1010 100 st2"
  have e0: "available (datacache st0 ! 100) = 0" "datacache st0 = replicate 1024 empty_bucket"
    by (simp_all add: st0_def init_state_def empty_bucket_def)
  have miss: "npy_alloc_cache 100 st0 = PyDataMem_NEW 100 st0"
    using e0 by (simp add: npy_alloc_cache_miss)
  have p: "fst (npy_alloc_cache 100 st0) = 0x1010"
    unfolding miss
    by (simp add: st0_def init_state_def PyDataMem_NEW_def sys_malloc_def get_aligned_size_def
        align_pointer_def MIN_ALIGN_def Let_def)
  have d1: "datacache st1 = replicate 1024 empty_bucket" "datamem_align st1 = 16"
    by (simp_all add: st1_def miss e0) (simp add: st0_def init_state_def MIN_ALIGN_def)
  have sa: "npy_datamem_set_align 32 st1 =
      (0, (u_npy_clear_cache NBUCKETS DataCache PyDataMem_FREE st1)
            \<lparr>datamem_align := 32, datamem_align_mask := 32 - 1\<rparr>)"
    using set_align_accepts [OF pow2_32, of st1] d1 by simp
  have l2: "length (datacache st2) = 1024"
    by (simp add: st2_def sa clear_data_cache(1) d1)
  have b2: "datacache st2 ! 100 = empty_bucket"
    by (simp add: st2_def sa clear_data_cache(2) d1 NBUCKETS_def empty_bucket_def)
  have a2: "datamem_align st2 = 32" by (simp add: st2_def sa)
  have push: "st3 = st2\<lparr>datacache := (datacache st2)
              [unat (100 :: 64 word) := (datacache st2 ! unat (100 :: 64 word))
                 \<lparr>available := available (datacache st2 ! unat (100 :: 64 word)) + 1,
                  ptrs := (ptrs (datacache st2 ! unat (100 :: 64 word)))
                            [unat (available (datacache st2 ! unat (100 :: 64 word))) := 0x1010]\<rparr>]\<rparr>"
    unfolding st3_def by (rule npy_free_cache_push) (simp_all add: b2 empty_bucket_def)
  have b3: "available (datacache st3 ! 100) = 1" "ptrs (datacache st3 ! 100) ! 0 = 0x1010"
    by (simp_all add: push l2 b2 empty_bucket_def)
  have a3: "npy_datamem_get_align st3 = 32"
    by (simp add: npy_datamem_get_align_def push a2)
  have q: "fst (npy_alloc_cache 100 st3) = 0x1010"
    using b3 by (simp add: npy_alloc_cache_hit)
  have s1: "npy_alloc_cache 100 (init_state (\<lambda>_. 0) [0x1000]) = (0x1010, st1)"
    using p by (simp add: st1_def st0_def prod_eq_iff)
  have s2: "npy_datamem_set_align 32 st1 = (0, st2)"
    by (simp add: st2_def sa)
  have s3: "npy_free_cache 0x1010 100 st2 = st3"
    by (simp add: st3_def)
  define st4 where "st4 = snd (npy_alloc_cache 100 st3)"
  have s4: "npy_alloc_cache 100 st3 = (0x1010, st4)"
    using q by (simp add: st4_def prod_eq_iff)
  have "raise_scenario = (0x1010, 0, 32, 0x1010)"
    unfolding raise_scenario_def Let_def
    by (simp only: s1 s2 s3 s4 a3 prod.case)
  then show ?thesis by (simp add: not_aligned_32)
qed

text \<open>
  C6 at a failing input.  The product \<open>(2 ^ 64 - 8) * 1\<close> does not overflow, but
  \<^verbatim>\<open>get_aligned_size\<close> wraps around to 15: \<^verbatim>\<open>calloc(15, 1)\<close> is called, and the non-null
  result \<open>0x1010\<close> lies beyond the 15 zeroed bytes at \<open>0x1000\<close>; its first byte is not 0.
\<close>

theorem zeroed_wrap:
  "zeroed_wrap_scenario = (False, 0x1010, [Calloc 15 1 0x1000], 0xAA)"
  by (simp add: zeroed_wrap_scenario_def PyDataMem_NEW_ZEROED_def npy_mul_with_overflow_intp_def
      sys_calloc_def get_aligned_size_def align_pointer_def init_state_def MIN_ALIGN_def
      memset0_def store_ptr_def call_eventhook_def Let_def)

lemma reset_empty_bucket: "available b = 0 \<Longrightarrow> b\<lparr>available := 0\<rparr> = b"
  by (cases b) simp

lemma clear_bucket_empty:
  "available (get_cache cache st ! i) = 0 \<Longrightarrow> clear_bucket cache dealloc i st = st"
  by (cases cache) (simp_all add: clear_bucket_def Let_def reset_empty_bucket)

lemma clear_empty_cache:
  assumes "\<forall>i < unat msz. available (get_cache cache st ! i) = 0"
  shows "u_npy_clear_cache msz cache dealloc st = st"
proof -
  have "fold (clear_bucket cache dealloc) idxs st = st"
    if "\<forall>i \<in> set idxs. available (get_cache cache st ! i) = 0" for idxs
    using that by (induction idxs) (simp_all add: clear_bucket_empty)
  then show ?thesis using assms by (simp add: u_npy_clear_cache_def)
qed

text \<open>
  C5 at a failing input.  The block moves and its offset from the base grows from 16 to
  32; \<^verbatim>\<open>align_pointer\<close> writes the header over bytes 8 to 15 of the copied data before
  \<^verbatim>\<open>memmove\<close> reads them: byte 8 was \<open>0x5A\<close> and is 0 after the resize.
\<close>

theorem renew_clobbers:
  "renew_scenario = (0x1020, 0x5A, 0x2020, 0)"
proof -
  define st0 where "st0 = init_state (\<lambda>_. 0) [0x1010, 0x2000]"
  define st1 where "st1 = st0\<lparr>datamem_align := 32, datamem_align_mask := 31\<rparr>"
  have "\<forall>i < unat NBUCKETS. available (get_cache DataCache st0 ! i) = 0"
    by (simp add: st0_def init_state_def NBUCKETS_def empty_bucket_def)
  then have "u_npy_clear_cache NBUCKETS DataCache PyDataMem_FREE st0 = st0"
    by (rule clear_empty_cache)
  moreover have "datamem_align st0 = 16" by (simp add: st0_def init_state_def MIN_ALIGN_def)
  ultimately have s1: "npy_datamem_set_align 32 (init_state (\<lambda>_. 0) [0x1010, 0x2000]) = (0, st1)"
    using set_align_accepts [OF pow2_32, of st0] by (simp add: st1_def st0_def [symmetric])
  define st2 where "st2 = snd (PyDataMem_NEW 16 st1)"
  have s2: "PyDataMem_NEW 16 st1 = (0x1020, st2)"
    by (simp add: st2_def prod_eq_iff)
      (simp add: st1_def st0_def init_state_def PyDataMem_NEW_def sys_malloc_def
        get_aligned_size_def align_pointer_def Let_def)
  have m2: "mem st2 = store_ptr 0x1018 0x1010 (\<lambda>_. 0)" "live st2 0x1010 = Some 55"
    "sys_next st2 = [0x2000]" "datamem_align_mask st2 = 31"
    by (simp_all add: st2_def st1_def st0_def init_state_def PyDataMem_NEW_def sys_malloc_def
        get_aligned_size_def align_pointer_def call_eventhook_def Let_def)
  define st3 where "st3 = st2\<lparr>mem := (mem st2)(0x1020 + 8 := 0x5A)\<rparr>"
  have o: "get_original_pointer 0x1020 st3 = 0x1010"
    by (simp add: get_original_pointer_def st3_def m2 load_ptr_def store_ptr_def)
  have m3: "mem st3 = (store_ptr 0x1018 0x1010 (\<lambda>_. 0))(0x1028 := 0x5A)"
    "live st3 0x1010 = Some 55" "sys_next st3 = [0x2000]" "datamem_align_mask st3 = 31"
    by (simp_all add: st3_def m2)
  define st4 where "st4 = snd (PyDataMem_RENEW 0x1020 16 st3)"
  have q: "fst (PyDataMem_RENEW 0x1020 16 st3) = 0x2020"
    by (simp add: PyDataMem_RENEW_def o Let_def split_def get_aligned_size_def sys_realloc_def
        align_pointer_def m3)
  have s4: "PyDataMem_RENEW 0x1020 16 st3 = (0x2020, st4)"
    using q by (simp add: st4_def prod_eq_iff)
  have b3: "mem st3 (0x1020 + 8) = 0x5A" by (simp add: st3_def)
  have b4: "mem st4 (0x2020 + 8) = 0"
    by (simp add: st4_def PyDataMem_RENEW_def o Let_def split_def get_aligned_size_def
        sys_realloc_def align_pointer_def m3 memmove_def store_ptr_def)
  show ?thesis
    unfolding renew_scenario_def Let_def
    by (simp only: s1 s2 prod.case st3_def [symmetric] s4 b3 b4)
qed

section \<open>Releases into a full bucket\<close>

lemma get_set_cache [simp]: "get_cache cache (set_cache cache c st) = c"
  by (cases cache) simp_all

lemma set_set_cache [simp]: "set_cache cache c (set_cache cache c' st) = set_cache cache c st"
  by (cases cache) simp_all

lemma set_cache_frame [simp]:
  "sys_calls (set_cache cache c st) = sys_calls st"
  "hook_calls (set_cache cache c st) = hook_calls st"
  "live (set_cache cache c st) = live st"
  "mem (set_cache cache c st) = mem st"
  "PyDataMem_eventhook (set_cache cache c st) = PyDataMem_eventhook st"
  "PyDataMem_eventhook_user_data (set_cache cache c st) = PyDataMem_eventhook_user_data st"
  by (cases cache; simp)+

lemma npy_free_cache_eq:
  "npy_free_cache q n = u_npy_free_cache q n NBUCKETS DataCache PyDataMem_FREE"
  by (rule ext) (simp add: npy_free_cache_def)

lemma npy_free_cache_dim_eq:
  "npy_free_cache_dim q n =
     u_npy_free_cache q (if n < 2 then 2 else n) NBUCKETS_DIM DimCache PyArray_free"
  by (rule ext) (simp add: npy_free_cache_dim_def)

text \<open>
  Consecutive releases of non-null blocks of one cached size class, while the bucket has
  room: only the table changes, and the count of the bucket grows by their number.
\<close>

lemma free_many:
  assumes "nelem < ucast msz"
    and "unat nelem < length (get_cache cache st)"
    and "list_all bucket_ok (get_cache cache st)"
    and "unat (available (get_cache cache st ! unat nelem)) + length qs \<le> 7"
    and "0 \<notin> set qs"
  shows "\<exists>c. fold (\<lambda>q. u_npy_free_cache q nelem msz cache dealloc) qs st = set_cache cache c st \<and>
             length c = length (get_cache cache st) \<and> list_all bucket_ok c \<and>
             unat (available (c ! unat nelem)) =
               unat (available (get_cache cache st ! unat nelem)) + length qs"
  using assms(2-)
proof (induction qs arbitrary: st)
  case Nil
  have "st = set_cache cache (get_cache cache st) st" by (cases cache) simp_all
  with Nil show ?case by auto
next
  case (Cons q qs)
  let ?b = "get_cache cache st ! unat nelem"
  let ?c1 = "(get_cache cache st)
               [unat nelem := ?b\<lparr>available := available ?b + 1,
                                  ptrs := (ptrs ?b)[unat (available ?b) := q]\<rparr>]"
  let ?st1 = "set_cache cache ?c1 st"
  have lt: "available ?b < 7" using Cons.prems(3) by (simp add: word_less_nat_alt)
  have q: "q \<noteq> 0" using Cons.prems(4) by auto
  have bok: "bucket_ok ?b" using Cons.prems(1,2) by (simp add: list_all_length)
  have push: "u_npy_free_cache q nelem msz cache dealloc st = ?st1"
    using q assms(1) lt by (simp add: u_npy_free_cache_def NCACHE_def Let_def)
  have "unat (available ?b) < 7" using lt by (rule word_less_7_unat)
  then have "unat (available ?b + 1) = unat (available ?b) + 1" by (simp add: unat_word_ariths)
  then have av: "unat (available (?c1 ! unat nelem)) = unat (available ?b) + 1"
    using Cons.prems(1) by simp
  have ok1: "list_all bucket_ok ?c1"
    using Cons.prems(2) bok lt by (intro list_all_update bucket_ok_push) (simp_all add: NCACHE_def)
  have "\<exists>c. fold (\<lambda>q. u_npy_free_cache q nelem msz cache dealloc) qs ?st1 =
              set_cache cache c ?st1 \<and>
             length c = length (get_cache cache ?st1) \<and> list_all bucket_ok c \<and>
             unat (available (c ! unat nelem)) =
               unat (available (get_cache cache ?st1 ! unat nelem)) + length qs"
    using Cons.prems(1,3,4) ok1 av by (intro Cons.IH) simp_all
  then obtain c where c: "fold (\<lambda>q. u_npy_free_cache q nelem msz cache dealloc) qs ?st1 =
              set_cache cache c ?st1"
    "length c = length ?c1" "list_all bucket_ok c"
    "unat (available (c ! unat nelem)) = unat (available (?c1 ! unat nelem)) + length qs"
    by auto
  have "fold (\<lambda>q. u_npy_free_cache q nelem msz cache dealloc) (q # qs) st = set_cache cache c st"
    using c(1) by (simp add: push)
  moreover have "length c = length (get_cache cache st)" using c(2) by simp
  moreover have "unat (available (c ! unat nelem)) =
      unat (available (get_cache cache st ! unat nelem)) + length (q # qs)"
    using c(4) av by simp
  ultimately show ?case using c(3) by blast
qed

text \<open>
  Eight consecutive releases on an empty bucket: seven fill it and change nothing but
  the table; the eighth is the deallocator's.
\<close>

lemma eighth_free:
  assumes "nelem < ucast msz"
    and "unat nelem < length (get_cache cache st)"
    and "list_all bucket_ok (get_cache cache st)"
    and "available (get_cache cache st ! unat nelem) = 0"
    and "length qs = 8" and "0 \<notin> set qs"
  shows "\<exists>c. fold (\<lambda>q. u_npy_free_cache q nelem msz cache dealloc) (take 7 qs) st =
               set_cache cache c st \<and>
             available (c ! unat nelem) = 7 \<and>
             fold (\<lambda>q. u_npy_free_cache q nelem msz cache dealloc) qs st =
               dealloc (qs ! 7) (set_cache cache c st)"
proof -
  let ?F = "\<lambda>q. u_npy_free_cache q nelem msz cache dealloc"
  have "unat (available (get_cache cache st ! unat nelem)) + length (take 7 qs) \<le> 7"
    using assms(4,5) by simp
  moreover have "0 \<notin> set (take 7 qs)" using assms(6) by (auto dest: in_set_takeD)
  ultimately obtain c where c: "fold ?F (take 7 qs) st = set_cache cache c st"
    "unat (available (c ! unat nelem)) =
       unat (available (get_cache cache st ! unat nelem)) + length (take 7 qs)"
    using free_many [OF assms(1,2,3), of "take 7 qs" dealloc] by blast
  have "unat (available (c ! unat nelem)) = 7" using c(2) assms(4,5) by simp
  then have full: "available (c ! unat nelem) = 7" by (simp add: word_unat_eq_iff)
  have "qs = take 7 qs @ [qs ! 7]"
    using assms(5) by (simp add: take_Suc_conv_app_nth [symmetric, of 7 qs])
  then have "fold ?F qs st = fold ?F (take 7 qs @ [qs ! 7]) st"
    by (rule arg_cong [where f = "\<lambda>l. fold ?F l st"])
  also have "\<dots> = ?F (qs ! 7) (set_cache cache c st)" by (simp add: c(1))
  also have "\<dots> = dealloc (qs ! 7) (set_cache cache c st)"
    using full by (simp add: u_npy_free_cache_def NCACHE_def)
  finally have "fold ?F qs st = dealloc (qs ! 7) (set_cache cache c st)" .
  with c(1) full show ?thesis by blast
qed

lemma sys_next_PyDataMem_NEW [simp]:
  "sys_next (snd (PyDataMem_NEW n st)) = tl (sys_next st)"
  by (simp add: PyDataMem_NEW_def Let_def split_def sys_malloc_def split: list.splits)

lemma sys_next_sys_malloc [simp]: "sys_next (snd (sys_malloc n st)) = tl (sys_next st)"
  by (simp add: sys_malloc_def split: list.splits)

text \<open>The header of a block that \<^verbatim>\<open>PyDataMem_NEW\<close> has just returned holds the base.\<close>

lemma PyDataMem_NEW_header:
  assumes "sys_next st = r # rs" "r \<noteq> 0"
  shows "fst (PyDataMem_NEW n st) = (r + 8 + datamem_align_mask st) AND NOT (datamem_align_mask st)"
    and "get_original_pointer (fst (PyDataMem_NEW n st)) (snd (PyDataMem_NEW n st)) = r"
    and "live (snd (PyDataMem_NEW n st)) r = Some (get_aligned_size n st)"
  using assms
  by (simp_all add: PyDataMem_NEW_def Let_def split_def sys_malloc_def align_pointer_def
      get_original_pointer_def load_store_ptr call_eventhook_def)

lemma eight_hooked_facts:
  "datacache eight_hooked_state = replicate 1024 empty_bucket"
  "dimcache eight_hooked_state = replicate 16 empty_bucket"
  "PyDataMem_eventhook eight_hooked_state = 0x4000"
  "PyDataMem_eventhook_user_data eight_hooked_state = 0x77"
  "datamem_align_mask eight_hooked_state = 15"
  "hook_calls eight_hooked_state = []"
  "sys_next eight_hooked_state = [0x1000, 0x2000, 0x3000, 0x4000, 0x5000, 0x6000, 0x7000, 0x8000]"
  by (simp_all add: eight_hooked_state_def PyDataMem_SetEventHook_def init_state_def MIN_ALIGN_def)

lemma alloc_on_empty_bucket:
  "datacache st = replicate 1024 empty_bucket \<Longrightarrow> npy_alloc_cache 500 st = PyDataMem_NEW 500 st"
  by (simp add: npy_alloc_cache_miss empty_bucket_def)

lemma alloc_dim_on_empty_bucket:
  "dimcache st = replicate 16 empty_bucket \<Longrightarrow> npy_alloc_cache_dim 3 st = sys_malloc 24 st"
  using npy_alloc_cache_dim_miss [of 3 st] by (simp add: empty_bucket_def)

lemma eight_data_facts:
  "datacache eight_data_state = replicate 1024 empty_bucket"
  "PyDataMem_eventhook eight_data_state = 0x4000"
  "PyDataMem_eventhook_user_data eight_data_state = 0x77"
  "get_original_pointer 0x8010 eight_data_state = 0x8000"
  "live eight_data_state 0x8000 = Some 523"
proof -
  define s7 where "s7 = run [Alloc_data 500, Alloc_data 500, Alloc_data 500, Alloc_data 500,
          Alloc_data 500, Alloc_data 500, Alloc_data 500] eight_hooked_state"
  have s7: "datacache s7 = replicate 1024 empty_bucket" "PyDataMem_eventhook s7 = 0x4000"
    "PyDataMem_eventhook_user_data s7 = 0x77" "datamem_align_mask s7 = 15"
    "sys_next s7 = [0x8000]"
    by (simp_all add: s7_def run_def alloc_on_empty_bucket eight_hooked_facts)
  have e: "eight_data_state = snd (PyDataMem_NEW 500 s7)"
    by (simp add: eight_data_state_def s7_def run_def alloc_on_empty_bucket eight_hooked_facts)
  show "datacache eight_data_state = replicate 1024 empty_bucket"
    "PyDataMem_eventhook eight_data_state = 0x4000"
    "PyDataMem_eventhook_user_data eight_data_state = 0x77"
    by (simp_all add: e s7)
  have nz: "(0x8000 :: addr) \<noteq> 0" by simp
  note h = PyDataMem_NEW_header [OF s7(5) nz, of 500]
  have p: "fst (PyDataMem_NEW 500 s7) = 0x8010" by (simp add: h(1) s7)
  show "get_original_pointer 0x8010 eight_data_state = 0x8000"
    using h(2) by (simp add: e p)
  show "live eight_data_state 0x8000 = Some 523"
    using h(3) by (simp add: e get_aligned_size_def s7)
qed

lemma eight_dim_facts:
  "dimcache eight_dim_state = replicate 16 empty_bucket"
  "PyDataMem_eventhook eight_dim_state = 0x4000"
  "hook_calls eight_dim_state = []"
  "live eight_dim_state 0x8000 = Some 24"
  by (simp_all add: eight_dim_state_def run_def alloc_dim_on_empty_bucket eight_hooked_facts)
    (simp add: sys_malloc_def eight_hooked_facts)

text \<open>What the two deallocators do with a non-null block.\<close>

lemma PyDataMem_FREE_frees:
  assumes "q \<noteq> 0" "get_original_pointer q st \<noteq> 0"
  shows "sys_calls (PyDataMem_FREE q st) = sys_calls st @ [Free (get_original_pointer q st)]"
    and "live (PyDataMem_FREE q st) = (live st)(get_original_pointer q st := None)"
  using assms by (simp_all add: PyDataMem_FREE_def sys_free_def call_eventhook_def)

lemma PyArray_free_frees:
  assumes "q \<noteq> 0"
  shows "sys_calls (PyArray_free q st) = sys_calls st @ [Free q]"
    and "live (PyArray_free q st) = (live st)(q := None)"
  using assms by (simp_all add: PyArray_free_def sys_free_def)

lemma PyDataMem_FREE_set_cache:
  "sys_calls (PyDataMem_FREE q (set_cache cache c st)) = sys_calls (PyDataMem_FREE q st)"
  "live (PyDataMem_FREE q (set_cache cache c st)) = live (PyDataMem_FREE q st)"
  "hook_calls (PyDataMem_FREE q (set_cache cache c st)) = hook_calls (PyDataMem_FREE q st)"
  by (cases cache;
      simp add: PyDataMem_FREE_def sys_free_def call_eventhook_def get_original_pointer_def)+

lemma PyArray_free_set_cache:
  "sys_calls (PyArray_free q (set_cache cache c st)) = sys_calls (PyArray_free q st)"
  "live (PyArray_free q (set_cache cache c st)) = live (PyArray_free q st)"
  "hook_calls (PyArray_free q (set_cache cache c st)) = hook_calls st"
  by (cases cache; simp add: PyArray_free_def sys_free_def)+

lemma hook_calls_npy_free_cache_dim: "hook_calls (npy_free_cache_dim q n st) = hook_calls st"
  by (simp add: npy_free_cache_dim_def u_npy_free_cache_def Let_def)

lemma eighth_free_data:
  fixes n :: "64 word"
  assumes "n < 1024" and "cache_ok st" and "available (datacache st ! unat n) = 0"
    and "length qs = 8" and "0 \<notin> set qs"
  shows "\<exists>c. fold (\<lambda>q. npy_free_cache q n) (take 7 qs) st = st\<lparr>datacache := c\<rparr> \<and>
             available (c ! unat n) = 7 \<and>
             fold (\<lambda>q. npy_free_cache q n) qs st = PyDataMem_FREE (qs ! 7) (st\<lparr>datacache := c\<rparr>)"
proof -
  have a: "n < ucast NBUCKETS" using assms(1) by (simp add: NBUCKETS_def)
  have b: "unat n < length (get_cache DataCache st)"
    using cache_ok_bucket(1) [OF assms(2,1)] by simp
  have c: "list_all bucket_ok (get_cache DataCache st)" using assms(2) by (simp add: cache_ok_def)
  have d: "available (get_cache DataCache st ! unat n) = 0" using assms(3) by simp
  from eighth_free [OF a b c d assms(4,5), of PyDataMem_FREE]
  show ?thesis by (simp add: npy_free_cache_eq [symmetric])
qed

lemma eighth_free_dim:
  fixes n :: "64 word"
  assumes "(if n < 2 then 2 else n) < 16" and "cache_ok st"
    and "available (dimcache st ! unat (if n < 2 then 2 else n)) = 0"
    and "length qs = 8" and "0 \<notin> set qs"
  shows "\<exists>c. fold (\<lambda>q. npy_free_cache_dim q n) (take 7 qs) st = st\<lparr>dimcache := c\<rparr> \<and>
             available (c ! unat (if n < 2 then 2 else n)) = 7 \<and>
             fold (\<lambda>q. npy_free_cache_dim q n) qs st = PyArray_free (qs ! 7) (st\<lparr>dimcache := c\<rparr>)"
proof -
  let ?k = "if n < 2 then 2 else n"
  have a: "?k < ucast NBUCKETS_DIM" using assms(1) by (simp add: NBUCKETS_DIM_def)
  have "unat ?k < 16" using assms(1) by (simp add: word_less_nat_alt)
  then have b: "unat ?k < length (get_cache DimCache st)"
    using assms(2) by (simp add: cache_ok_def)
  have c: "list_all bucket_ok (get_cache DimCache st)" using assms(2) by (simp add: cache_ok_def)
  have d: "available (get_cache DimCache st ! unat ?k) = 0" using assms(3) by simp
  from eighth_free [OF a b c d assms(4,5), of PyArray_free]
  show ?thesis by (simp add: npy_free_cache_dim_eq [symmetric])
qed

text \<open>
  C3, amended.  In every state that a run of calls reaches from program start, both
  tables are well formed; in particular no bucket of either holds more than 7 entries.
  A release of a size class whose bucket holds 7 leaves the bucket as it is and goes to
  the underlying deallocator.  For the data cache that is \<^verbatim>\<open>PyDataMem_FREE\<close>: the C
  library frees the base that the header of a non-null block holds, and a registered
  hook is invoked with \<open>(ptr, NULL, 0)\<close>.  For the dimension cache that is
  \<^verbatim>\<open>PyArray_free\<close>: the C library frees a non-null block, and the hook is not invoked.
  Of eight consecutive non-null releases of one size class on an empty bucket, seven
  are cached without a call of the C library, and the eighth is such a deallocation,
  which the hook observes for the data cache only.
\<close>

theorem bucket_capacity:
  fixes n :: "64 word"
  shows "cache_ok (run ops (init_state m answers)) \<and>
    (\<forall>b \<in> set (datacache (run ops (init_state m answers))) \<union>
            set (dimcache (run ops (init_state m answers))). available b \<le> 7) \<and>
    (n < 1024 \<and> available (datacache st ! unat n) = 7 \<longrightarrow>
       datacache (npy_free_cache q n st) = datacache st \<and>
       npy_free_cache q n st = PyDataMem_FREE q st \<and>
       (q \<noteq> 0 \<and> get_original_pointer q st \<noteq> 0 \<longrightarrow>
          sys_calls (npy_free_cache q n st) = sys_calls st @ [Free (get_original_pointer q st)] \<and>
          live (npy_free_cache q n st) = (live st)(get_original_pointer q st := None)) \<and>
       (PyDataMem_eventhook st \<noteq> 0 \<longrightarrow>
          hook_calls (npy_free_cache q n st) = hook_calls st @
            [HookCall (PyDataMem_eventhook st) q 0 0 (PyDataMem_eventhook_user_data st)])) \<and>
    (available (dimcache st ! unat (if n < 2 then 2 else n)) = 7 \<longrightarrow>
       dimcache (npy_free_cache_dim q n st) = dimcache st \<and>
       npy_free_cache_dim q n st = PyArray_free q st \<and>
       (q \<noteq> 0 \<longrightarrow>
          sys_calls (npy_free_cache_dim q n st) = sys_calls st @ [Free q] \<and>
          live (npy_free_cache_dim q n st) = (live st)(q := None)) \<and>
       hook_calls (npy_free_cache_dim q n st) = hook_calls st) \<and>
    (n < 1024 \<and> cache_ok st \<and> available (datacache st ! unat n) = 0 \<and>
     length qs = 8 \<and> 0 \<notin> set qs \<longrightarrow>
       (let st7 = fold (\<lambda>q. npy_free_cache q n) (take 7 qs) st;
            st8 = fold (\<lambda>q. npy_free_cache q n) qs st
        in hook_calls st7 = hook_calls st \<and> sys_calls st7 = sys_calls st \<and>
           live st7 = live st \<and> available (datacache st7 ! unat n) = 7 \<and>
           st8 = PyDataMem_FREE (qs ! 7) st7 \<and>
           (get_original_pointer (qs ! 7) st \<noteq> 0 \<longrightarrow>
              sys_calls st8 = sys_calls st @ [Free (get_original_pointer (qs ! 7) st)] \<and>
              live st8 = (live st)(get_original_pointer (qs ! 7) st := None)) \<and>
           (PyDataMem_eventhook st \<noteq> 0 \<longrightarrow>
              hook_calls st8 = hook_calls st @
                [HookCall (PyDataMem_eventhook st) (qs ! 7) 0 0
                   (PyDataMem_eventhook_user_data st)]))) \<and>
    ((if n < 2 then 2 else n) < 16 \<and> cache_ok st \<and>
     available (dimcache st ! unat (if n < 2 then 2 else n)) = 0 \<and>
     length qs = 8 \<and> 0 \<notin> set qs \<longrightarrow>
       (let st7 = fold (\<lambda>q. npy_free_cache_dim q n) (take 7 qs) st;
            st8 = fold (\<lambda>q. npy_free_cache_dim q n) qs st
        in sys_calls st7 = sys_calls st \<and> live st7 = live st \<and>
           available (dimcache st7 ! unat (if n < 2 then 2 else n)) = 7 \<and>
           st8 = PyArray_free (qs ! 7) st7 \<and>
           sys_calls st8 = sys_calls st @ [Free (qs ! 7)] \<and>
           live st8 = (live st)(qs ! 7 := None) \<and>
           hook_calls st8 = hook_calls st))"
proof -
  have ok: "cache_ok (run ops (init_state m answers))"
    by (rule run_cache_ok) (rule cache_ok_init)
  then have le: "\<forall>b \<in> set (datacache (run ops (init_state m answers))) \<union>
            set (dimcache (run ops (init_state m answers))). available b \<le> 7"
    by (auto simp: cache_ok_def list_all_iff bucket_ok_def NCACHE_def)
  have data: "datacache (npy_free_cache q n st) = datacache st \<and>
       npy_free_cache q n st = PyDataMem_FREE q st \<and>
       (q \<noteq> 0 \<and> get_original_pointer q st \<noteq> 0 \<longrightarrow>
          sys_calls (npy_free_cache q n st) = sys_calls st @ [Free (get_original_pointer q st)] \<and>
          live (npy_free_cache q n st) = (live st)(get_original_pointer q st := None)) \<and>
       (PyDataMem_eventhook st \<noteq> 0 \<longrightarrow>
          hook_calls (npy_free_cache q n st) = hook_calls st @
            [HookCall (PyDataMem_eventhook st) q 0 0 (PyDataMem_eventhook_user_data st)])"
    if "available (datacache st ! unat n) = 7"
    using that
    by (simp add: npy_free_cache_bypass hook_calls_FREE hook_calls_call_eventhook
        PyDataMem_FREE_frees)
  have dims: "dimcache (npy_free_cache_dim q n st) = dimcache st \<and>
       npy_free_cache_dim q n st = PyArray_free q st \<and>
       (q \<noteq> 0 \<longrightarrow>
          sys_calls (npy_free_cache_dim q n st) = sys_calls st @ [Free q] \<and>
          live (npy_free_cache_dim q n st) = (live st)(q := None)) \<and>
       hook_calls (npy_free_cache_dim q n st) = hook_calls st"
    if "available (dimcache st ! unat (if n < 2 then 2 else n)) = 7"
    using that by (simp add: npy_free_cache_dim_bypass PyArray_free_frees)
  have eight: "let st7 = fold (\<lambda>q. npy_free_cache q n) (take 7 qs) st;
            st8 = fold (\<lambda>q. npy_free_cache q n) qs st
        in hook_calls st7 = hook_calls st \<and> sys_calls st7 = sys_calls st \<and>
           live st7 = live st \<and> available (datacache st7 ! unat n) = 7 \<and>
           st8 = PyDataMem_FREE (qs ! 7) st7 \<and>
           (get_original_pointer (qs ! 7) st \<noteq> 0 \<longrightarrow>
              sys_calls st8 = sys_calls st @ [Free (get_original_pointer (qs ! 7) st)] \<and>
              live st8 = (live st)(get_original_pointer (qs ! 7) st := None)) \<and>
           (PyDataMem_eventhook st \<noteq> 0 \<longrightarrow>
              hook_calls st8 = hook_calls st @
                [HookCall (PyDataMem_eventhook st) (qs ! 7) 0 0
                   (PyDataMem_eventhook_user_data st)])"
    if h: "n < 1024" "cache_ok st" "available (datacache st ! unat n) = 0"
      "length qs = 8" "0 \<notin> set qs"
  proof -
    from eighth_free_data [OF h] obtain c where
      c: "fold (\<lambda>q. npy_free_cache q n) (take 7 qs) st = st\<lparr>datacache := c\<rparr>"
        "available (c ! unat n) = 7"
        "fold (\<lambda>q. npy_free_cache q n) qs st = PyDataMem_FREE (qs ! 7) (st\<lparr>datacache := c\<rparr>)"
      by blast
    have "qs ! 7 \<in> set qs" using h(4) by simp
    then have q: "qs ! 7 \<noteq> 0" using h(5) by metis
    show ?thesis
      using q PyDataMem_FREE_set_cache [of "qs ! 7" DataCache c st]
      by (simp add: Let_def c hook_calls_FREE hook_calls_call_eventhook PyDataMem_FREE_frees)
  qed
  have eightd: "let st7 = fold (\<lambda>q. npy_free_cache_dim q n) (take 7 qs) st;
            st8 = fold (\<lambda>q. npy_free_cache_dim q n) qs st
        in sys_calls st7 = sys_calls st \<and> live st7 = live st \<and>
           available (dimcache st7 ! unat (if n < 2 then 2 else n)) = 7 \<and>
           st8 = PyArray_free (qs ! 7) st7 \<and>
           sys_calls st8 = sys_calls st @ [Free (qs ! 7)] \<and>
           live st8 = (live st)(qs ! 7 := None) \<and>
           hook_calls st8 = hook_calls st"
    if h: "(if n < 2 then 2 else n) < 16" "cache_ok st"
      "available (dimcache st ! unat (if n < 2 then 2 else n)) = 0"
      "length qs = 8" "0 \<notin> set qs"
  proof -
    from eighth_free_dim [OF h] obtain c where
      c: "fold (\<lambda>q. npy_free_cache_dim q n) (take 7 qs) st = st\<lparr>dimcache := c\<rparr>"
        "available (c ! unat (if n < 2 then 2 else n)) = 7"
        "fold (\<lambda>q. npy_free_cache_dim q n) qs st = PyArray_free (qs ! 7) (st\<lparr>dimcache := c\<rparr>)"
      by blast
    have "qs ! 7 \<in> set qs" using h(4) by simp
    then have q: "qs ! 7 \<noteq> 0" using h(5) by metis
    show ?thesis
      using q PyArray_free_set_cache [of "qs ! 7" DimCache c st]
      by (simp add: Let_def c PyArray_free_frees)
  qed
  show ?thesis
    using ok le data dims eight eightd by blast
qed

lemma cache_ok_eight_hooked: "cache_ok eight_hooked_state"
  using cache_ok_init [of "\<lambda>_. 0" "[0x1000, 0x2000, 0x3000, 0x4000, 0x5000, 0x6000, 0x7000, 0x8000]"]
  by (simp add: eight_hooked_state_def PyDataMem_SetEventHook_def cache_ok_def)

lemma cache_ok_eight_data: "cache_ok eight_data_state"
  unfolding eight_data_state_def by (rule run_cache_ok) (rule cache_ok_eight_hooked)

lemma cache_ok_eight_dim: "cache_ok eight_dim_state"
  unfolding eight_dim_state_def by (rule run_cache_ok) (rule cache_ok_eight_hooked)

lemma npy_free_cache_mem [simp]: "mem (npy_free_cache q n st) = mem st"
  by (simp add: npy_free_cache_def u_npy_free_cache_def Let_def)

lemma fold_free_mem: "mem (fold (\<lambda>q. npy_free_cache q n) qs st) = mem st"
  by (induction qs arbitrary: st) simp_all

lemma get_original_pointer_fold_free:
  "get_original_pointer p (fold (\<lambda>q. npy_free_cache q n) qs st) = get_original_pointer p st"
  by (simp add: get_original_pointer_def fold_free_mem)

lemma hook_fold_free_dim:
  "PyDataMem_eventhook (fold (\<lambda>q. npy_free_cache_dim q n) qs st) = PyDataMem_eventhook st"
proof (induction qs arbitrary: st)
  case Nil
  then show ?case by simp
next
  case (Cons q qs)
  have "PyDataMem_eventhook (npy_free_cache_dim q n st) = PyDataMem_eventhook st"
    by (simp add: npy_free_cache_dim_def u_npy_free_cache_def Let_def)
  then show ?case by (simp add: Cons.IH)
qed

text \<open>
  The claim C3 as stated fails for the dimension cache: eight blocks of 3 words are
  allocated and released with a hook registered; the eighth release frees the block at
  \<open>0x8000\<close>, and the hook is not invoked.
\<close>

theorem dims_release_counterexample:
  "PyDataMem_eventhook eight_dim_state \<noteq> 0 \<and> hook_calls eight_dim_state = [] \<and>
   live eight_dim_state 0x8000 = Some 24 \<and>
   (let st8 = fold (\<lambda>q. npy_free_cache_dim q 3)
                [0x1000, 0x2000, 0x3000, 0x4000, 0x5000, 0x6000, 0x7000, 0x8000] eight_dim_state
    in sys_calls st8 = sys_calls eight_dim_state @ [Free 0x8000] \<and>
       live st8 0x8000 = None \<and> hook_calls st8 = [])"
proof -
  let ?qs = "[0x1000, 0x2000, 0x3000, 0x4000, 0x5000, 0x6000, 0x7000, 0x8000] :: addr list"
  have k: "(if (3 :: 64 word) < 2 then 2 else 3) < (16 :: 64 word)" by simp
  have e: "available (dimcache eight_dim_state ! unat (if (3 :: 64 word) < 2 then 2 else (3 :: 64 word))) = 0"
    by (simp add: eight_dim_facts empty_bucket_def)
  have qs: "length ?qs = 8" "0 \<notin> set ?qs" by simp_all
  from eighth_free_dim [OF k cache_ok_eight_dim e qs] obtain c where
    c: "fold (\<lambda>q. npy_free_cache_dim q 3) ?qs eight_dim_state =
          PyArray_free (?qs ! 7) (eight_dim_state\<lparr>dimcache := c\<rparr>)"
    by blast
  have "sys_calls (fold (\<lambda>q. npy_free_cache_dim q 3) ?qs eight_dim_state) =
          sys_calls eight_dim_state @ [Free 0x8000]"
    "live (fold (\<lambda>q. npy_free_cache_dim q 3) ?qs eight_dim_state) 0x8000 = None"
    "hook_calls (fold (\<lambda>q. npy_free_cache_dim q 3) ?qs eight_dim_state) = []"
    unfolding c by (simp_all add: PyArray_free_def sys_free_def eight_dim_facts)
  then show ?thesis by (simp add: Let_def eight_dim_facts)
qed

theorem bucket_capacity_witness:
  "cache_ok (run [Alloc_data 100, Free_data 0x1010 100, Set_align 32, Alloc_dims 1]
              (init_state (\<lambda>_. 0) [0x1000, 0x2000])) \<and>
   cache_ok eight_data_state \<and> available (datacache eight_data_state ! 500) = 0 \<and>
   get_original_pointer 0x8010 eight_data_state = 0x8000 \<and>
   live eight_data_state 0x8000 = Some 523 \<and>
   (let qs = [0x1010, 0x2010, 0x3010, 0x4010, 0x5010, 0x6010, 0x7010, 0x8010];
        st7 = fold (\<lambda>q. npy_free_cache q 500) (take 7 qs) eight_data_state;
        st8 = fold (\<lambda>q. npy_free_cache q 500) qs eight_data_state
    in available (datacache st7 ! 500) = 7 \<and>
       sys_calls st7 = sys_calls eight_data_state \<and>
       hook_calls st7 = hook_calls eight_data_state \<and>
       npy_free_cache 0x8010 500 st7 = PyDataMem_FREE 0x8010 st7 \<and>
       sys_calls (npy_free_cache 0x8010 500 st7) = sys_calls st7 @ [Free 0x8000] \<and>
       sys_calls st8 = sys_calls eight_data_state @ [Free 0x8000] \<and>
       live st8 0x8000 = None \<and>
       hook_calls st8 = hook_calls eight_data_state @ [HookCall 0x4000 0x8010 0 0 0x77]) \<and>
   cache_ok eight_dim_state \<and> available (dimcache eight_dim_state ! 3) = 0 \<and>
   (let qs = [0x1000, 0x2000, 0x3000, 0x4000, 0x5000, 0x6000, 0x7000, 0x8000];
        st7 = fold (\<lambda>q. npy_free_cache_dim q 3) (take 7 qs) eight_dim_state;
        st8 = fold (\<lambda>q. npy_free_cache_dim q 3) qs eight_dim_state
    in available (dimcache st7 ! 3) = 7 \<and>
       sys_calls st7 = sys_calls eight_dim_state \<and>
       npy_free_cache_dim 0x8000 3 st7 = PyArray_free 0x8000 st7 \<and>
       sys_calls (npy_free_cache_dim 0x8000 3 st7) = sys_calls st7 @ [Free 0x8000] \<and>
       sys_calls st8 = sys_calls eight_dim_state @ [Free 0x8000] \<and>
       live st8 0x8000 = None \<and>
       hook_calls st8 = hook_calls eight_dim_state)"
proof -
  let ?qs = "[0x1010, 0x2010, 0x3010, 0x4010, 0x5010, 0x6010, 0x7010, 0x8010] :: addr list"
  let ?ds = "[0x1000, 0x2000, 0x3000, 0x4000, 0x5000, 0x6000, 0x7000, 0x8000] :: addr list"
  let ?st7 = "fold (\<lambda>q. npy_free_cache q 500) (take 7 ?qs) eight_data_state"
  let ?dt7 = "fold (\<lambda>q. npy_free_cache_dim q 3) (take 7 ?ds) eight_dim_state"
  have run: "cache_ok (run [Alloc_data 100, Free_data 0x1010 100, Set_align 32, Alloc_dims 1]
              (init_state (\<lambda>_. 0) [0x1000, 0x2000]))"
    using bucket_capacity [of "[Alloc_data 100, Free_data 0x1010 100, Set_align 32, Alloc_dims 1]"
        "\<lambda>_. 0" "[0x1000, 0x2000]"] by blast
  have qs: "length ?qs = 8" "0 \<notin> set ?qs" "?qs ! 7 = 0x8010" by simp_all
  have ds: "length ?ds = 8" "0 \<notin> set ?ds" "?ds ! 7 = 0x8000" by simp_all
  have e: "available (datacache eight_data_state ! 500) = 0"
    by (simp add: eight_data_facts empty_bucket_def)
  have ed: "available (dimcache eight_dim_state ! 3) = 0"
    by (simp add: eight_dim_facts empty_bucket_def)
  note E = bucket_capacity [where n = 500 and st = eight_data_state and qs = "?qs",
      THEN conjunct2, THEN conjunct2, THEN conjunct2, THEN conjunct2, THEN conjunct1]
  have hyp: "(500 :: 64 word) < 1024 \<and> cache_ok eight_data_state \<and>
      available (datacache eight_data_state ! unat (500 :: 64 word)) = 0 \<and>
      length ?qs = 8 \<and> 0 \<notin> set ?qs"
    using cache_ok_eight_data e by simp
  have eight: "available (datacache ?st7 ! 500) = 7 \<and>
       sys_calls ?st7 = sys_calls eight_data_state \<and>
       hook_calls ?st7 = hook_calls eight_data_state \<and>
       sys_calls (fold (\<lambda>q. npy_free_cache q 500) ?qs eight_data_state) =
         sys_calls eight_data_state @ [Free 0x8000] \<and>
       live (fold (\<lambda>q. npy_free_cache q 500) ?qs eight_data_state) 0x8000 = None \<and>
       hook_calls (fold (\<lambda>q. npy_free_cache q 500) ?qs eight_data_state) =
         hook_calls eight_data_state @ [HookCall 0x4000 0x8010 0 0 0x77]"
  proof -
    have gp: "get_original_pointer (?qs ! 7) eight_data_state = 0x8000"
      by (simp add: eight_data_facts)
    then have nz: "get_original_pointer (?qs ! 7) eight_data_state \<noteq> 0" by simp
    have hk: "PyDataMem_eventhook eight_data_state \<noteq> 0" by (simp add: eight_data_facts)
    note L = E [THEN mp, OF hyp, unfolded Let_def]
    from L have "available (datacache ?st7 ! unat (500 :: 64 word)) = 7" by blast
    then have c1: "available (datacache ?st7 ! 500) = 7" by simp
    from L have c2: "sys_calls ?st7 = sys_calls eight_data_state"
      and c3: "hook_calls ?st7 = hook_calls eight_data_state" by blast+
    from L nz have "sys_calls (fold (\<lambda>q. npy_free_cache q 500) ?qs eight_data_state) =
         sys_calls eight_data_state @ [Free (get_original_pointer (?qs ! 7) eight_data_state)]"
      and "live (fold (\<lambda>q. npy_free_cache q 500) ?qs eight_data_state) =
         (live eight_data_state)(get_original_pointer (?qs ! 7) eight_data_state := None)"
      by blast+
    then have c4: "sys_calls (fold (\<lambda>q. npy_free_cache q 500) ?qs eight_data_state) =
         sys_calls eight_data_state @ [Free 0x8000]"
      and c5: "live (fold (\<lambda>q. npy_free_cache q 500) ?qs eight_data_state) 0x8000 = None"
      by (simp_all only: gp fun_upd_same)
    from L hk have "hook_calls (fold (\<lambda>q. npy_free_cache q 500) ?qs eight_data_state) =
         hook_calls eight_data_state @
           [HookCall (PyDataMem_eventhook eight_data_state) (?qs ! 7) 0 0
              (PyDataMem_eventhook_user_data eight_data_state)]"
      by blast
    then have c6: "hook_calls (fold (\<lambda>q. npy_free_cache q 500) ?qs eight_data_state) =
         hook_calls eight_data_state @ [HookCall 0x4000 0x8010 0 0 0x77]"
      by (simp only: eight_data_facts qs(3))
    from c1 c2 c3 c4 c5 c6 show ?thesis by blast
  qed
  have g7: "get_original_pointer 0x8010 ?st7 = 0x8000"
    by (simp only: get_original_pointer_fold_free eight_data_facts)
  have u: "unat (500 :: 64 word) = 500" by simp
  have full: "npy_free_cache 0x8010 500 ?st7 = PyDataMem_FREE 0x8010 ?st7 \<and>
       sys_calls (npy_free_cache 0x8010 500 ?st7) = sys_calls ?st7 @ [Free 0x8000]"
  proof -
    note T = bucket_capacity [where n = 500 and st = ?st7 and q = "0x8010",
        THEN conjunct2, THEN conjunct2, THEN conjunct1]
    have "available (datacache ?st7 ! 500) = 7" using eight by blast
    then have h: "(500 :: 64 word) < 1024 \<and> available (datacache ?st7 ! unat (500 :: 64 word)) = 7"
      by (simp only: u) simp
    have nz: "(0x8010 :: addr) \<noteq> 0 \<and> get_original_pointer 0x8010 ?st7 \<noteq> 0"
      by (simp only: g7) simp
    from T [THEN mp, OF h] nz
    have "npy_free_cache 0x8010 500 ?st7 = PyDataMem_FREE 0x8010 ?st7"
      and "sys_calls (npy_free_cache 0x8010 500 ?st7) =
             sys_calls ?st7 @ [Free (get_original_pointer 0x8010 ?st7)]"
      by blast+
    then show ?thesis by (simp only: g7)
  qed
  note F = bucket_capacity [where n = 3 and st = eight_dim_state and qs = "?ds",
      THEN conjunct2, THEN conjunct2, THEN conjunct2, THEN conjunct2, THEN conjunct2]
  have hypd: "(if (3 :: 64 word) < 2 then 2 else 3) < (16 :: 64 word) \<and> cache_ok eight_dim_state \<and>
      available (dimcache eight_dim_state ! unat (if (3 :: 64 word) < 2 then 2 else (3 :: 64 word))) = 0 \<and>
      length ?ds = 8 \<and> 0 \<notin> set ?ds"
    using cache_ok_eight_dim ed by simp
  have eightd: "available (dimcache ?dt7 ! 3) = 7 \<and>
       sys_calls ?dt7 = sys_calls eight_dim_state \<and>
       sys_calls (fold (\<lambda>q. npy_free_cache_dim q 3) ?ds eight_dim_state) =
         sys_calls eight_dim_state @ [Free 0x8000] \<and>
       live (fold (\<lambda>q. npy_free_cache_dim q 3) ?ds eight_dim_state) 0x8000 = None \<and>
       hook_calls (fold (\<lambda>q. npy_free_cache_dim q 3) ?ds eight_dim_state) =
         hook_calls eight_dim_state"
  proof -
    note L = F [THEN mp, OF hypd, unfolded Let_def]
    from L have "available (dimcache ?dt7 ! unat (if (3 :: 64 word) < 2 then 2 else (3 :: 64 word))) = 7"
      by blast
    then have d1: "available (dimcache ?dt7 ! 3) = 7" by simp
    from L have d2: "sys_calls ?dt7 = sys_calls eight_dim_state" by blast
    from L have "sys_calls (fold (\<lambda>q. npy_free_cache_dim q 3) ?ds eight_dim_state) =
         sys_calls eight_dim_state @ [Free (?ds ! 7)]"
      and "live (fold (\<lambda>q. npy_free_cache_dim q 3) ?ds eight_dim_state) =
         (live eight_dim_state)(?ds ! 7 := None)"
      and d5: "hook_calls (fold (\<lambda>q. npy_free_cache_dim q 3) ?ds eight_dim_state) =
         hook_calls eight_dim_state"
      by blast+
    then have d3: "sys_calls (fold (\<lambda>q. npy_free_cache_dim q 3) ?ds eight_dim_state) =
         sys_calls eight_dim_state @ [Free 0x8000]"
      and d4: "live (fold (\<lambda>q. npy_free_cache_dim q 3) ?ds eight_dim_state) 0x8000 = None"
      by (simp_all only: ds(3) fun_upd_same)
    from d1 d2 d3 d4 d5 show ?thesis by blast
  qed
  have ud: "unat (if (3 :: 64 word) < 2 then 2 else (3 :: 64 word)) = 3" by simp
  have fulld: "npy_free_cache_dim 0x8000 3 ?dt7 = PyArray_free 0x8000 ?dt7 \<and>
       sys_calls (npy_free_cache_dim 0x8000 3 ?dt7) = sys_calls ?dt7 @ [Free 0x8000]"
  proof -
    note T = bucket_capacity [where n = 3 and st = ?dt7 and q = "0x8000",
        THEN conjunct2, THEN conjunct2, THEN conjunct2, THEN conjunct1]
    have "available (dimcache ?dt7 ! 3) = 7" using eightd by blast
    then have h: "available (dimcache ?dt7 ! unat (if (3 :: 64 word) < 2 then 2 else (3 :: 64 word))) = 7"
      by (simp only: ud)
    have nz: "(0x8000 :: addr) \<noteq> 0" by simp
    from T [THEN mp, OF h] nz show ?thesis by blast
  qed
  show ?thesis
    unfolding Let_def
    using run cache_ok_eight_data e eight_data_facts(4,5) eight full
      cache_ok_eight_dim ed eightd fulld
    by blast
qed

end
